theory Spec2Isabelle
  imports
    Main
    "HOL-Library.Char_ord"
    "HOL-Library.List_Lexorder"
    "HOL-Library.Product_Lexorder"
    "HOL-Library.Sublist"
begin

section \<open>Data model (src/types.ts, src/lib/localDb.ts)\<close>

text \<open>
  The browser chat client keeps its settings and its message history in IndexedDB
  (class \<open>LocalDatabase\<close>), mirrors the settings into \<open>localStorage\<close> and, when
  configured, into a remote table. The records below are the interfaces of the source,
  field by field. Fields of the stored rows carry the prefix \<open>ls_\<close> (interface
  \<open>LocalSettings\<close>) or \<open>lm_\<close> (interface \<open>LocalMessage\<close>), those of a file attachment
  the prefix \<open>fa_\<close>, because a field name is a constant of the theory and several
  interfaces share the names \<open>id\<close>, \<open>user_id\<close>, \<open>content\<close> and \<open>model\<close>. A timestamp
  is a value of \<open>Date.now()\<close>, an integer number of milliseconds.
\<close>

datatype role = User | Assistant

record FileAttachment =
  fa_id :: string
  fa_name :: string
  fa_size :: nat
  fa_type :: string
  fa_content :: string

record Message =
  role :: role
  content :: string
  timestamp :: int
  attachments :: "FileAttachment list option"

record Settings =
  apiKey :: string
  baseUrl :: string
  model :: string

text \<open>
  The argument of \<open>LocalDatabase.saveSettings\<close>, \<open>{api_key, base_url, model}\<close>; the row
  the remote table returns has the same three fields.
\<close>

record SettingsFields =
  api_key :: string
  base_url :: string
  model_f :: string

record LocalSettings =
  ls_id :: string
  ls_user_id :: string
  ls_api_key :: string
  ls_base_url :: string
  ls_model :: string
  ls_created_at :: string
  ls_updated_at :: string

text \<open>
  \<open>LocalMessage.attachments\<close> is the string \<open>JSON.stringify(message.attachments)\<close>, or
  undefined when the message has none; the reader applies \<open>JSON.parse\<close>. The model keeps
  the attachment list itself in the row: serialising and parsing a list of attachments is
  taken to be the identity.
\<close>

record LocalMessage =
  lm_id :: string
  lm_user_id :: string
  lm_role :: role
  lm_content :: string
  lm_timestamp :: int
  lm_attachments :: "FileAttachment list option"
  lm_created_at :: string

text \<open>
  The database \<open>GrokChatDB\<close>: the object store \<open>settings\<close> (key path \<open>id\<close>, unique index
  \<open>user_id\<close>) and the object store \<open>messages\<close> (key path \<open>id\<close>, indexes \<open>user_id\<close>,
  \<open>timestamp\<close> and \<open>user_timestamp\<close>). A store is the list of its rows.
\<close>

record database =
  settings_store :: "LocalSettings list"
  messages_store :: "LocalMessage list"

text \<open>
  What a rejected promise carries. The first four are the \<open>DOMException\<close>s of IndexedDB
  (\<open>request.error\<close>); \<open>TypeError msg\<close> and \<open>ReferenceError msg\<close> are raised by the
  JavaScript engine and \<open>Error msg\<close> is \<open>new Error(msg)\<close> or another instance of
  \<open>Error\<close>, each with its message.
\<close>

datatype error =
  OpenError | RequestError | ConstraintError | DataError
  | TypeError string | ReferenceError string | Error string

text \<open>
  What the browser decides during one call of a \<open>LocalDatabase\<close> method: whether
  \<open>indexedDB.open\<close> fires \<open>onsuccess\<close>, whether the first and the second request of the
  call fire \<open>onsuccess\<close>, and the values of \<open>crypto.randomUUID()\<close>,
  \<open>new Date().toISOString()\<close> and \<open>Date.now()\<close>.
\<close>

record idb_call =
  open_ok :: bool
  req_ok :: bool
  req2_ok :: bool
  uuid :: string
  iso_now :: string
  ms_now :: int

section \<open>IndexedDB primitives\<close>

text \<open>
  \<open>store.index('user_id').get(userId)\<close> on the settings store: the first row whose
  \<open>user_id\<close> is the key, or undefined.
\<close>

definition index_get_user_id :: "LocalSettings list \<Rightarrow> string \<Rightarrow> LocalSettings option" where
  "index_get_user_id rows userId = find (\<lambda>r. ls_user_id r = userId) rows"

text \<open>
  \<open>store.put(row)\<close> on the settings store. The index \<open>user_id\<close> is unique: the request
  fails with a \<open>ConstraintError\<close> when another row (one with a different primary key)
  has the same \<open>user_id\<close>. Otherwise the row replaces the row with its primary key, or is
  inserted.
\<close>

definition store_put :: "LocalSettings \<Rightarrow> LocalSettings list \<Rightarrow> error + LocalSettings list" where
  "store_put row rows =
     (if list_ex (\<lambda>r. ls_user_id r = ls_user_id row \<and> ls_id r \<noteq> ls_id row) rows
      then Inl ConstraintError
      else if list_ex (\<lambda>r. ls_id r = ls_id row) rows
      then Inr (map (\<lambda>r. if ls_id r = ls_id row then row else r) rows)
      else Inr (rows @ [row]))"

text \<open>
  \<open>store.add(row)\<close> on the messages store: a \<open>ConstraintError\<close> when the primary key
  is taken, otherwise the row is inserted.
\<close>

definition store_add :: "LocalMessage \<Rightarrow> LocalMessage list \<Rightarrow> error + LocalMessage list" where
  "store_add row rows =
     (if list_ex (\<lambda>r. lm_id r = lm_id row) rows then Inl ConstraintError
      else Inr (rows @ [row]))"

text \<open>
  The rows a cursor on the index \<open>user_timestamp\<close> visits, direction \<open>next\<close>, for the range
  \<open>IDBKeyRange.bound([userId, lo], [userId, hi])\<close>: those of the user with a timestamp in
  the range, in the order of the index key \<open>[user_id, timestamp]\<close> and, among equal keys,
  of the primary key.
\<close>

definition index_user_timestamp :: "LocalMessage list \<Rightarrow> string \<Rightarrow> int \<Rightarrow> int \<Rightarrow> LocalMessage list" where
  "index_user_timestamp rows userId lo hi =
     sort_key (\<lambda>r. (lm_timestamp r, lm_id r))
       (filter (\<lambda>r. lm_user_id r = userId \<and> lo \<le> lm_timestamp r \<and> lm_timestamp r \<le> hi) rows)"

section \<open>LocalDatabase (src/lib/localDb.ts)\<close>

text \<open>
  Every method opens the database first and rejects with the error of the open request
  when that fails. A request that fires \<open>onerror\<close> rejects the promise; the transaction
  aborts and the database is as before. \<open>Inl\<close> is the rejected promise.
\<close>

text \<open>The row \<open>messageData\<close> that \<open>saveMessage\<close> builds.\<close>

definition messageData :: "idb_call \<Rightarrow> string \<Rightarrow> Message \<Rightarrow> LocalMessage" where
  "messageData c userId message =
     \<lparr> lm_id = uuid c, lm_user_id = userId, lm_role = role message,
       lm_content = content message, lm_timestamp = timestamp message,
       lm_attachments = attachments message, lm_created_at = iso_now c \<rparr>"

definition localDb_saveMessage :: "idb_call \<Rightarrow> database \<Rightarrow> string \<Rightarrow> Message \<Rightarrow> error + database" where
  "localDb_saveMessage c db userId message =
     (if \<not> open_ok c then Inl OpenError
      else if \<not> req_ok c then Inl RequestError
      else (case store_add (messageData c userId message) (messages_store db) of
              Inl e \<Rightarrow> Inl e
            | Inr rows \<Rightarrow> Inr (db\<lparr>messages_store := rows\<rparr>)))"

text \<open>
  The argument \<open>limit?: number\<close> is \<open>None\<close> when absent. \<open>!limit\<close> holds for an absent
  limit and for 0.
\<close>

definition not_limit :: "int option \<Rightarrow> bool" where
  "not_limit limit = (case limit of None \<Rightarrow> True | Some n \<Rightarrow> n = 0)"

definition length_below :: "nat \<Rightarrow> int option \<Rightarrow> bool" where
  "length_below len limit = (case limit of None \<Rightarrow> False | Some n \<Rightarrow> int len < n)"

text \<open>
  The \<open>onsuccess\<close> handler of the cursor request of \<open>loadMessages\<close>: the row under the
  cursor is pushed, then the cursor continues if \<open>!limit || messages.length < limit\<close>, and
  the promise resolves otherwise; with no row left it resolves.
\<close>

fun cursor_loop :: "int option \<Rightarrow> LocalMessage list \<Rightarrow> LocalMessage list \<Rightarrow> LocalMessage list" where
  "cursor_loop limit [] messages = messages"
| "cursor_loop limit (v # rest) messages =
     (let pushed = messages @ [v]
      in if not_limit limit \<or> length_below (length pushed) limit
         then cursor_loop limit rest pushed
         else pushed)"

text \<open>
  \<open>IDBKeyRange.bound\<close> throws a \<open>DataError\<close> when the lower bound is above the upper one,
  that is when \<open>Date.now()\<close> is negative.
\<close>

definition localDb_loadMessages :: "idb_call \<Rightarrow> database \<Rightarrow> string \<Rightarrow> int option \<Rightarrow> error + LocalMessage list" where
  "localDb_loadMessages c db userId limit =
     (if \<not> open_ok c then Inl OpenError
      else if ms_now c < 0 then Inl DataError
      else if \<not> req_ok c then Inl RequestError
      else Inr (cursor_loop limit (index_user_timestamp (messages_store db) userId 0 (ms_now c)) []))"

definition localDb_deleteMessages :: "idb_call \<Rightarrow> database \<Rightarrow> string \<Rightarrow> error + database" where
  "localDb_deleteMessages c db userId =
     (if \<not> open_ok c then Inl OpenError
      else if \<not> req_ok c then Inl RequestError
      else Inr (db\<lparr>messages_store := filter (\<lambda>r. lm_user_id r \<noteq> userId) (messages_store db)\<rparr>))"

definition localDb_getMessageCount :: "idb_call \<Rightarrow> database \<Rightarrow> string \<Rightarrow> error + nat" where
  "localDb_getMessageCount c db userId =
     (if \<not> open_ok c then Inl OpenError
      else if \<not> req_ok c then Inl RequestError
      else Inr (length (filter (\<lambda>r. lm_user_id r = userId) (messages_store db))))"

definition localDb_saveSettings :: "idb_call \<Rightarrow> database \<Rightarrow> string \<Rightarrow> SettingsFields \<Rightarrow> error + database" where
  "localDb_saveSettings c db userId settings =
     (if \<not> open_ok c then Inl OpenError
      else
        let now = iso_now c;
            settingsData =
              \<lparr> ls_id = uuid c, ls_user_id = userId, ls_api_key = api_key settings,
                ls_base_url = base_url settings, ls_model = model_f settings,
                ls_created_at = now, ls_updated_at = now \<rparr>
        in if \<not> req_ok c then Inl RequestError
           else
             let settingsData' =
                   (case index_get_user_id (settings_store db) userId of
                      Some existing \<Rightarrow>
                        settingsData\<lparr> ls_id := ls_id existing,
                                      ls_created_at := ls_created_at existing,
                                      ls_updated_at := now \<rparr>
                    | None \<Rightarrow> settingsData)
             in if \<not> req2_ok c then Inl RequestError
                else (case store_put settingsData' (settings_store db) of
                        Inl e \<Rightarrow> Inl e
                      | Inr rows \<Rightarrow> Inr (db\<lparr>settings_store := rows\<rparr>)))"

definition localDb_loadSettings :: "idb_call \<Rightarrow> database \<Rightarrow> string \<Rightarrow> error + LocalSettings option" where
  "localDb_loadSettings c db userId =
     (if \<not> open_ok c then Inl OpenError
      else if \<not> req_ok c then Inl RequestError
      else Inr (index_get_user_id (settings_store db) userId))"

definition localDb_deleteSettings :: "idb_call \<Rightarrow> database \<Rightarrow> string \<Rightarrow> error + database" where
  "localDb_deleteSettings c db userId =
     (if \<not> open_ok c then Inl OpenError
      else if \<not> req_ok c then Inl RequestError
      else (case index_get_user_id (settings_store db) userId of
              Some result \<Rightarrow>
                if \<not> req2_ok c then Inl RequestError
                else Inr (db\<lparr>settings_store := filter (\<lambda>r. ls_id r \<noteq> ls_id result) (settings_store db)\<rparr>)
            | None \<Rightarrow> Inr db))"

text \<open>
  \<open>clearAllData\<close> opens one transaction over both stores and issues the two \<open>clear\<close>
  requests, the settings store's first. Its promise resolves in \<open>checkComplete\<close>, which
  each \<open>onsuccess\<close> handler calls, once \<open>completed\<close> has reached \<open>total = 2\<close>; each
  \<open>onerror\<close> handler rejects it. Settling a promise that is settled already does nothing.
\<close>

datatype promise = Pending | Resolved | Rejected error

definition resolve :: "promise \<Rightarrow> promise" where
  "resolve p = (case p of Pending \<Rightarrow> Resolved | _ \<Rightarrow> p)"

definition reject :: "error \<Rightarrow> promise \<Rightarrow> promise" where
  "reject e p = (case p of Pending \<Rightarrow> Rejected e | _ \<Rightarrow> p)"

record clear_progress =
  completed :: nat
  settled :: promise
  tx_db :: database

definition checkComplete :: "clear_progress \<Rightarrow> clear_progress" where
  "checkComplete p =
     (let n = completed p + 1
      in p\<lparr> completed := n, settled := (if n = 2 then resolve (settled p) else settled p) \<rparr>)"

datatype clear_event = SettingsSuccess | MessagesSuccess | SettingsFailure | MessagesFailure

text \<open>
  A request that succeeds has emptied its store inside the transaction, and its
  \<open>onsuccess\<close> handler runs; one that fails runs its \<open>onerror\<close> handler.
\<close>

fun on_event :: "clear_progress \<Rightarrow> clear_event \<Rightarrow> clear_progress" where
  "on_event p SettingsSuccess = checkComplete (p\<lparr>tx_db := (tx_db p)\<lparr>settings_store := []\<rparr>\<rparr>)"
| "on_event p MessagesSuccess = checkComplete (p\<lparr>tx_db := (tx_db p)\<lparr>messages_store := []\<rparr>\<rparr>)"
| "on_event p SettingsFailure = p\<lparr>settled := reject RequestError (settled p)\<rparr>"
| "on_event p MessagesFailure = p\<lparr>settled := reject RequestError (settled p)\<rparr>"




section \<open>The state of the application\<close>

text \<open>
  The item \<open>grok-chat-settings\<close> of \<open>localStorage\<close> (the flat backup): absent or empty
  (\<open>NoItem\<close>), a string that \<open>JSON.parse\<close> refuses or parses to \<open>null\<close>, so that
  reading \<open>parsed.apiKey\<close> throws (\<open>BadJson\<close>), or a parsed value with its properties
  \<open>apiKey\<close>, \<open>baseUrl\<close> and \<open>model\<close>, each of which may be missing.
\<close>

datatype flat_blob = NoItem | BadJson | Blob "string option" "string option" "string option"

text \<open>
  What the operations do to the outside and to the React state, in the order they do it:
  the calls of \<open>localStorage.setItem\<close> for the settings, of the \<open>LocalDatabase\<close> methods,
  of the remote table, of \<open>fetch\<close>, of the state setters, and of \<open>console.error\<close> in the
  hooks and in \<open>App\<close> (with the text of its first argument). \<open>console.log\<close> and the
  console output of \<open>LocalDatabase\<close> itself are not recorded.
\<close>

datatype event =
    FlatWrite Settings
  | DbLoadSettings string
  | DbSaveSettings string SettingsFields
  | DbLoadMessages string
  | DbSaveMessage string Message
  | DbGetMessageCount string
  | RemoteSelect string
  | RemoteUpsert string SettingsFields
  | Fetch
  | SetSettings Settings
  | SetMessages "Message list"
  | AppendMessage Message
  | SetError "string option"
  | SetIsLoading bool
  | SetIsSettingsOpen bool
  | ConsoleError string

record world =
  flat_backup :: flat_blob
  user_id_item :: "string option"
  idb :: database
  settings_state :: Settings
  settings_isLoading :: bool
  messages_state :: "Message list"
  messages_isLoading :: bool
  error_state :: "string option"
  app_isLoading :: bool
  isSettingsOpen :: bool
  trace :: "event list"

text \<open>
  \<open>flat_backup\<close> and \<open>user_id_item\<close> are the items \<open>grok-chat-settings\<close> and
  \<open>grok-user-id\<close> of \<open>localStorage\<close>, \<open>idb\<close> is the IndexedDB database, the next seven
  fields are the \<open>useState\<close> cells of \<open>useSettings\<close>, \<open>useMessages\<close> and \<open>App\<close>, and
  \<open>trace\<close> lists the events so far.
\<close>

datatype select_result = SelectThrows | SelectError | SelectNoRow | SelectRow SettingsFields

datatype upsert_result = UpsertThrows | UpsertError | UpsertOk

text \<open>
  A response of the completion endpoint. Its body is \<open>NotJson msg\<close> when
  \<open>response.json()\<close> rejects, with the message of the error; \<open>JsonNull\<close> when it
  resolves with \<open>null\<close>; and otherwise \<open>Json\<close> of what the code reads of the parsed
  value: \<open>error?.message\<close>, \<open>message\<close> and \<open>choices?.[0]?.message?.content\<close>, each
  \<open>None\<close> when undefined. The three properties are taken to be strings when they are
  defined.
\<close>

record json_body =
  error_message :: "string option"
  message_prop :: "string option"
  choice_content :: "string option"

datatype parsed_body = NotJson string | JsonNull | Json json_body

record response =
  status :: nat
  statusText :: string
  body :: parsed_body

datatype fetch_result = FetchThrows string | FetchResponse response

text \<open>
  What the environment decides during one operation of a hook or of \<open>App\<close>:
  \<open>LocalDatabase.isSupported()\<close>, whether the remote client exists
  (\<open>isSupabaseConfigured\<close>, equivalently \<open>supabase\<close> is not null), the value of
  \<open>crypto.randomUUID()\<close> in \<open>getUserId\<close>, whether \<open>localStorage.setItem\<close> of the settings
  returns, the outcomes of the remote \<open>select\<close> and \<open>upsert\<close> and of \<open>fetch\<close>, the
  outcomes of the first and of the second \<open>LocalDatabase\<close> call the operation makes,
  the values of \<open>Date.now()\<close> for the user's and for the assistant's message, and the
  message of the \<open>TypeError\<close> that the engine throws when a property of \<open>null\<close> is read.
\<close>

record env =
  idb_supported :: bool
  supabase_configured :: bool
  random_user_id :: string
  flat_write_ok :: bool
  select_outcome :: select_result
  upsert_outcome :: upsert_result
  fetch_outcome :: fetch_result
  call1 :: idb_call
  call2 :: idb_call
  now_user :: int
  now_assistant :: int
  null_read_message :: string

definition emit :: "event \<Rightarrow> world \<Rightarrow> world" where
  "emit e w = w\<lparr>trace := trace w @ [e]\<rparr>"

definition console_error :: "string \<Rightarrow> world \<Rightarrow> world" where
  "console_error label w = emit (ConsoleError label) w"

section \<open>getUserId (src/lib/supabase.ts)\<close>

text \<open>
  The cached identifier, or a fresh one that is stored. The item of \<open>localStorage\<close> is
  taken to be readable and writable.
\<close>

definition getUserId :: "env \<Rightarrow> world \<Rightarrow> string \<times> world" where
  "getUserId env w =
     (case user_id_item w of
        Some userId \<Rightarrow>
          if userId \<noteq> [] then (userId, w)
          else (random_user_id env, w\<lparr>user_id_item := Some (random_user_id env)\<rparr>)
      | None \<Rightarrow> (random_user_id env, w\<lparr>user_id_item := Some (random_user_id env)\<rparr>))"

section \<open>useSettings (src/hooks/useSettings.ts)\<close>

definition DEFAULT_SETTINGS :: Settings where
  "DEFAULT_SETTINGS = \<lparr> apiKey = [], baseUrl = ''https://api.x.ai'', model = ''auto'' \<rparr>"

definition setSettings :: "Settings \<Rightarrow> world \<Rightarrow> world" where
  "setSettings s w = emit (SetSettings s) (w\<lparr>settings_state := s\<rparr>)"

definition loadLocalSettings :: "world \<Rightarrow> Settings \<times> world" where
  "loadLocalSettings w =
     (case flat_backup w of
        NoItem \<Rightarrow> (DEFAULT_SETTINGS, w)
      | BadJson \<Rightarrow> (DEFAULT_SETTINGS, console_error ''Failed to load settings from localStorage:'' w)
      | Blob k u m \<Rightarrow>
          (\<lparr> apiKey = (case k of Some x \<Rightarrow> x | None \<Rightarrow> apiKey DEFAULT_SETTINGS),
             baseUrl = (case u of Some x \<Rightarrow> x | None \<Rightarrow> baseUrl DEFAULT_SETTINGS),
             model = (case m of Some x \<Rightarrow> x | None \<Rightarrow> model DEFAULT_SETTINGS) \<rparr>, w))"

definition saveLocalSettings :: "env \<Rightarrow> Settings \<Rightarrow> world \<Rightarrow> world" where
  "saveLocalSettings env s w =
     (let w1 = emit (FlatWrite s) w
      in if flat_write_ok env
         then w1\<lparr>flat_backup := Blob (Some (apiKey s)) (Some (baseUrl s)) (Some (model s))\<rparr>
         else console_error ''Failed to save settings to localStorage:'' w1)"

definition fields_of :: "Settings \<Rightarrow> SettingsFields" where
  "fields_of s = \<lparr> api_key = apiKey s, base_url = baseUrl s, model_f = model s \<rparr>"

definition saveLocalDbSettings :: "env \<Rightarrow> idb_call \<Rightarrow> string \<Rightarrow> Settings \<Rightarrow> world \<Rightarrow> world" where
  "saveLocalDbSettings env c userId s w =
     (if \<not> idb_supported env then w
      else
        let w1 = emit (DbSaveSettings userId (fields_of s)) w
        in (case localDb_saveSettings c (idb w1) userId (fields_of s) of
              Inr db' \<Rightarrow> w1\<lparr>idb := db'\<rparr>
            | Inl e \<Rightarrow> console_error ''Failed to save settings to IndexedDB:'' w1))"

definition loadLocalDbSettings :: "env \<Rightarrow> idb_call \<Rightarrow> string \<Rightarrow> world \<Rightarrow> Settings option \<times> world" where
  "loadLocalDbSettings env c userId w =
     (if \<not> idb_supported env then (None, w)
      else
        let w1 = emit (DbLoadSettings userId) w
        in (case localDb_loadSettings c (idb w1) userId of
              Inr (Some data) \<Rightarrow>
                (Some \<lparr> apiKey = ls_api_key data, baseUrl = ls_base_url data, model = ls_model data \<rparr>, w1)
            | Inr None \<Rightarrow> (None, w1)
            | Inl e \<Rightarrow> (None, console_error ''Failed to load settings from IndexedDB:'' w1)))"

text \<open>
  The \<open>catch\<close> block of \<open>loadSettings\<close>: both local tiers are read again and the object
  store's settings are taken if they have an API key.
\<close>

definition loadSettings_catch :: "env \<Rightarrow> world \<Rightarrow> world" where
  "loadSettings_catch env w =
     (let w1 = console_error ''Failed to load settings:'' w;
          (localSettings, w2) = loadLocalSettings w1;
          (userId, w3) = getUserId env w2;
          (localDbSettings, w4) = loadLocalDbSettings env (call2 env) userId w3
      in setSettings
           (case localDbSettings of
              Some d \<Rightarrow> if apiKey d \<noteq> [] then d else localSettings
            | None \<Rightarrow> localSettings) w4)"

text \<open>
  \<open>loadSettings\<close>. The remote client is used without a test: when it is null,
  \<open>supabase.from\<close> throws and the \<open>catch\<close> block runs.
\<close>

definition useSettings_loadSettings :: "env \<Rightarrow> world \<Rightarrow> world" where
  "useSettings_loadSettings env w =
     (let (userId, w1) = getUserId env w;
          (localSettings, w2) = loadLocalSettings w1;
          (localDbSettings, w3) = loadLocalDbSettings env (call1 env) userId w2;
          fallbackSettings =
            (case localDbSettings of
               Some d \<Rightarrow> if apiKey d \<noteq> [] then d else localSettings
             | None \<Rightarrow> localSettings);
          w4 = (if apiKey localSettings \<noteq> [] then setSettings localSettings w3 else w3);
          w5 =
            (if \<not> supabase_configured env then loadSettings_catch env w4
             else
               let w4' = emit (RemoteSelect userId) w4
               in (case select_outcome env of
                     SelectThrows \<Rightarrow> loadSettings_catch env w4'
                   | SelectError \<Rightarrow>
                       setSettings fallbackSettings (console_error ''Error loading settings:'' w4')
                   | SelectRow data \<Rightarrow>
                       let dbSettings =
                             \<lparr> apiKey = api_key data, baseUrl = base_url data, model = model_f data \<rparr>
                       in saveLocalDbSettings env (call2 env) userId dbSettings
                            (saveLocalSettings env dbSettings (setSettings dbSettings w4'))
                   | SelectNoRow \<Rightarrow> setSettings fallbackSettings w4'))
      in w5\<lparr>settings_isLoading := False\<rparr>)"

text \<open>
  The \<open>try\<close> block of \<open>updateSettings\<close>. After the upsert the source tests
  \<open>!isSupabaseConfigured || !supabase\<close> again and, if it held, would read the variable
  \<open>fallbackSettings\<close>, which this function does not declare. What a rejected upsert
  throws is only passed to \<open>console.error\<close>; the model gives it a fixed text.
\<close>

definition updateSettings_try :: "env \<Rightarrow> string \<Rightarrow> Settings \<Rightarrow> world \<Rightarrow> (error + unit) \<times> world" where
  "updateSettings_try env userId newSettings w =
     (let w1 = emit (RemoteUpsert userId (fields_of newSettings)) w
      in (case upsert_outcome env of
            UpsertThrows \<Rightarrow> (Inl (Error ''upsert rejected''), w1)
          | r \<Rightarrow>
              let w2 = (if r = UpsertError then console_error ''Error saving settings:'' w1 else w1)
              in if \<not> supabase_configured env
                 then (Inl (ReferenceError ''fallbackSettings is not defined''), w2)
                 else (Inr (), w2)))"

definition updateSettings :: "env \<Rightarrow> Settings \<Rightarrow> world \<Rightarrow> (error + unit) \<times> world" where
  "updateSettings env newSettings w =
     (let (userId, w1) = getUserId env w;
          w2 = saveLocalSettings env newSettings w1;
          w3 = saveLocalDbSettings env (call1 env) userId newSettings w2;
          w4 = setSettings newSettings w3
      in if \<not> supabase_configured env then (Inr (), w4)
         else (case updateSettings_try env userId newSettings w4 of
                 (Inl e, w5) \<Rightarrow> (Inr (), console_error ''Failed to save settings:'' w5)
               | (Inr u, w5) \<Rightarrow> (Inr (), w5)))"

section \<open>useMessages (src/hooks/useMessages.ts)\<close>

text \<open>The conversion of a stored row into a \<open>Message\<close> in \<open>loadMessages\<close>.\<close>

definition message_of :: "LocalMessage \<Rightarrow> Message" where
  "message_of msg =
     \<lparr> role = lm_role msg, content = lm_content msg, timestamp = lm_timestamp msg,
       attachments = lm_attachments msg \<rparr>"

definition useMessages_loadMessages :: "env \<Rightarrow> world \<Rightarrow> world" where
  "useMessages_loadMessages env w =
     (if \<not> idb_supported env then w\<lparr>messages_isLoading := False\<rparr>
      else
        let (userId, w1) = getUserId env w;
            w2 = emit (DbLoadMessages userId) w1;
            w3 = (case localDb_loadMessages (call1 env) (idb w2) userId None of
                    Inr localMessages \<Rightarrow>
                      emit (SetMessages (map message_of localMessages))
                        (w2\<lparr>messages_state := map message_of localMessages\<rparr>)
                  | Inl e \<Rightarrow> console_error ''Failed to load messages from local database:'' w2)
        in w3\<lparr>messages_isLoading := False\<rparr>)"

text \<open>
  \<open>addMessage\<close>: \<open>setMessages(prev => [...prev, message])\<close> first, then the write to the
  database inside \<open>try\<close>, whose \<open>catch\<close> logs.
\<close>

definition addMessage :: "env \<Rightarrow> idb_call \<Rightarrow> Message \<Rightarrow> world \<Rightarrow> (error + unit) \<times> world" where
  "addMessage env c message w =
     (let w1 = emit (AppendMessage message) (w\<lparr>messages_state := messages_state w @ [message]\<rparr>)
      in if idb_supported env
         then
           let (userId, w2) = getUserId env w1;
               w3 = emit (DbSaveMessage userId message) w2
           in (case localDb_saveMessage c (idb w3) userId message of
                 Inr db' \<Rightarrow> (Inr (), w3\<lparr>idb := db'\<rparr>)
               | Inl e \<Rightarrow> (Inr (), console_error ''Failed to save message to local database:'' w3))
         else (Inr (), w1))"

definition useMessages_getMessageCount :: "env \<Rightarrow> world \<Rightarrow> (error + nat) \<times> world" where
  "useMessages_getMessageCount env w =
     (if \<not> idb_supported env then (Inr (length (messages_state w)), w)
      else
        let (userId, w1) = getUserId env w;
            w2 = emit (DbGetMessageCount userId) w1
        in (case localDb_getMessageCount (call1 env) (idb w2) userId of
              Inr n \<Rightarrow> (Inr n, w2)
            | Inl e \<Rightarrow>
                (Inr (length (messages_state w)),
                 console_error ''Failed to get message count from local database:'' w2)))"

section \<open>App.sendMessage (src/App.tsx)\<close>

text \<open>\<open>String(n)\<close> for a natural number, as the template literal prints \<open>response.status\<close>.\<close>

definition digit_char :: "nat \<Rightarrow> char" where
  "digit_char d = ''0123456789'' ! d"

function string_of_nat :: "nat \<Rightarrow> string" where
  "string_of_nat n =
     (if n < 10 then [digit_char n] else string_of_nat (n div 10) @ [digit_char (n mod 10)])"
  by pat_completeness auto
termination
  by (relation "measure id") auto

declare string_of_nat.simps [simp del]

text \<open>\<open>response.ok\<close>: the status is in the range 200 to 299.\<close>

definition response_ok :: "response \<Rightarrow> bool" where
  "response_ok r = (200 \<le> status r \<and> status r \<le> 299)"

text \<open>\<open>a || b\<close> on a string that may be undefined: \<open>b\<close> when \<open>a\<close> is undefined or empty.\<close>

definition or_else :: "string option \<Rightarrow> string \<Rightarrow> string" where
  "or_else a b = (case a of Some x \<Rightarrow> if x \<noteq> [] then x else b | None \<Rightarrow> b)"

text \<open>
  \<open>errorData = await response.json().catch(() => ({}))\<close>: the empty object when the
  body is not JSON; \<open>None\<close> stands for \<open>null\<close>.
\<close>

definition errorData_of :: "response \<Rightarrow> json_body option" where
  "errorData_of r =
     (case body r of
        NotJson msg \<Rightarrow> Some \<lparr> error_message = None, message_prop = None, choice_content = None \<rparr>
      | JsonNull \<Rightarrow> None
      | Json parsed \<Rightarrow> Some parsed)"

text \<open>\<open>errorData.error?.message || errorData.message || response.statusText\<close>.\<close>

definition errorMsg :: "json_body \<Rightarrow> response \<Rightarrow> string" where
  "errorMsg errorData r =
     or_else (error_message errorData) (or_else (message_prop errorData) (statusText r))"

text \<open>
  The \<open>try\<close> block of \<open>sendMessage\<close>, from \<open>fetch\<close> on. The request it sends is built
  from the state without changing it and is not modelled; the answer is the
  environment's. A rejected \<open>fetch\<close> or \<open>response.json()\<close> throws an error with a
  message. Where the parsed body is \<open>null\<close>, reading \<open>errorData.error\<close> or
  \<open>data.choices\<close> throws a \<open>TypeError\<close>.
\<close>

definition sendMessage_try :: "env \<Rightarrow> world \<Rightarrow> (error + unit) \<times> world" where
  "sendMessage_try env w =
     (let w1 = emit Fetch w
      in (case fetch_outcome env of
            FetchThrows msg \<Rightarrow> (Inl (Error msg), w1)
          | FetchResponse r \<Rightarrow>
              if \<not> response_ok r
              then (case errorData_of r of
                      None \<Rightarrow>
                        (Inl (TypeError (null_read_message env)), console_error ''API Error:'' w1)
                    | Some errorData \<Rightarrow>
                        (Inl (Error (string_of_nat (status r) @ '' Error: '' @ errorMsg errorData r)),
                         console_error ''API Error:'' w1))
              else (case body r of
                      NotJson msg \<Rightarrow> (Inl (Error msg), w1)
                    | JsonNull \<Rightarrow> (Inl (TypeError (null_read_message env)), w1)
                    | Json data \<Rightarrow>
                        addMessage env (call2 env)
                          \<lparr> role = Assistant,
                            content = or_else (choice_content data) ''No response from AI'',
                            timestamp = now_assistant env,
                            attachments = None \<rparr> w1)))"

text \<open>
  \<open>err instanceof Error ? err.message : 'Failed to send message'\<close>. An exception of
  IndexedDB does not reach this place, since \<open>addMessage\<close> catches it; the model gives it
  the second branch.
\<close>

definition error_text :: "error \<Rightarrow> string" where
  "error_text e =
     (case e of
        Error msg \<Rightarrow> msg
      | TypeError msg \<Rightarrow> msg
      | ReferenceError msg \<Rightarrow> msg
      | _ \<Rightarrow> ''Failed to send message'')"

definition setError :: "string option \<Rightarrow> world \<Rightarrow> world" where
  "setError e w = emit (SetError e) (w\<lparr>error_state := e\<rparr>)"

definition setIsLoading :: "bool \<Rightarrow> world \<Rightarrow> world" where
  "setIsLoading b w = emit (SetIsLoading b) (w\<lparr>app_isLoading := b\<rparr>)"

definition setIsSettingsOpen :: "bool \<Rightarrow> world \<Rightarrow> world" where
  "setIsSettingsOpen b w = emit (SetIsSettingsOpen b) (w\<lparr>isSettingsOpen := b\<rparr>)"

definition sendMessage :: "env \<Rightarrow> string \<Rightarrow> FileAttachment list option \<Rightarrow> world \<Rightarrow> (error + unit) \<times> world" where
  "sendMessage env text atts w =
     (if apiKey (settings_state w) = []
      then (Inr (), setIsSettingsOpen True (setError (Some ''Please configure your API key in settings'') w))
      else
        let userMessage = \<lparr> role = User, content = text, timestamp = now_user env, attachments = atts \<rparr>
        in (case addMessage env (call1 env) userMessage w of
              (Inl e, w1) \<Rightarrow> (Inl e, w1)
            | (Inr u, w1) \<Rightarrow>
                let w2 = setError None (setIsLoading True w1);
                    w4 = (case sendMessage_try env w2 of
                            (Inl err, w3) \<Rightarrow>
                              setError (Some (error_text err)) (console_error ''Request failed:'' w3)
                          | (Inr u', w3) \<Rightarrow> w3)
                in (Inr (), setIsLoading False w4)))"

section \<open>Notions used in the statements\<close>

text \<open>
  The invariant of the settings store that IndexedDB maintains: primary keys are
  distinct (key path \<open>id\<close>) and so are the keys of the unique index \<open>user_id\<close>.
\<close>

definition settings_wf :: "LocalSettings list \<Rightarrow> bool" where
  "settings_wf rows = (distinct (map ls_id rows) \<and> distinct (map ls_user_id rows))"

definition count_user :: "LocalSettings list \<Rightarrow> string \<Rightarrow> nat" where
  "count_user rows userId = length (filter (\<lambda>r. ls_user_id r = userId) rows)"

text \<open>Successive calls of \<open>saveSettings\<close> and of \<open>saveMessage\<close> for one user, each awaited.\<close>

fun saveSettings_seq :: "(idb_call \<times> SettingsFields) list \<Rightarrow> database \<Rightarrow> string \<Rightarrow> error + database" where
  "saveSettings_seq [] db userId = Inr db"
| "saveSettings_seq ((c, s) # rest) db userId =
     (case localDb_saveSettings c db userId s of
        Inl e \<Rightarrow> Inl e
      | Inr db' \<Rightarrow> saveSettings_seq rest db' userId)"

fun saveMessage_seq :: "(idb_call \<times> Message) list \<Rightarrow> database \<Rightarrow> string \<Rightarrow> error + database" where
  "saveMessage_seq [] db userId = Inr db"
| "saveMessage_seq ((c, message) # rest) db userId =
     (case localDb_saveMessage c db userId message of
        Inl e \<Rightarrow> Inl e
      | Inr db' \<Rightarrow> saveMessage_seq rest db' userId)"

text \<open>
  The events an operation added to the trace, and those of them that are not console
  output.
\<close>

definition new_events :: "world \<Rightarrow> world \<Rightarrow> event list" where
  "new_events w w' = drop (length (trace w)) (trace w')"

fun is_console :: "event \<Rightarrow> bool" where
  "is_console (ConsoleError label) = True"
| "is_console e = False"

definition effects :: "world \<Rightarrow> world \<Rightarrow> event list" where
  "effects w w' = filter (\<lambda>e. \<not> is_console e) (new_events w w')"

fun is_shown_error :: "event \<Rightarrow> bool" where
  "is_shown_error (SetError (Some msg)) = True"
| "is_shown_error e = False"

text \<open>The events that put an assistant's message on screen or into the database.\<close>

fun adds_assistant :: "event \<Rightarrow> bool" where
  "adds_assistant (AppendMessage m) = (role m = Assistant)"
| "adds_assistant (DbSaveMessage userId m) = (role m = Assistant)"
| "adds_assistant e = False"

text \<open>The identifier \<open>getUserId\<close> returns in a state.\<close>

definition current_user :: "env \<Rightarrow> world \<Rightarrow> string" where
  "current_user env w =
     (case user_id_item w of
        Some userId \<Rightarrow> if userId \<noteq> [] then userId else random_user_id env
      | None \<Rightarrow> random_user_id env)"

fun is_success :: "clear_event \<Rightarrow> bool" where
  "is_success SettingsSuccess = True"
| "is_success MessagesSuccess = True"
| "is_success e = False"

text \<open>
  A state and an environment for the instances below. The flat backup holds the API key
  \<open>A\<close>, the object store a row of the user \<open>user-1\<close> with the API key \<open>B\<close> and one
  message; one message is on screen. In the environment IndexedDB is supported and its
  requests succeed, the remote table is configured and has no row, and \<open>fetch\<close> fails.
\<close>

definition example_call :: idb_call where
  "example_call =
     \<lparr> open_ok = True, req_ok = True, req2_ok = True, uuid = ''id-new'',
       iso_now = ''2024-06-01T00:00:00.000Z'', ms_now = 1717200000000 \<rparr>"

definition example_env :: env where
  "example_env =
     \<lparr> idb_supported = True, supabase_configured = True, random_user_id = ''user-2'',
       flat_write_ok = True, select_outcome = SelectNoRow, upsert_outcome = UpsertOk,
       fetch_outcome = FetchThrows ''Failed to fetch'',
       call1 = example_call, call2 = example_call\<lparr>uuid := ''id-new-2''\<rparr>,
       now_user = 1717200000000, now_assistant = 1717200000500,
       null_read_message = ''Cannot read properties of null (reading 'error')'' \<rparr>"

definition example_world :: world where
  "example_world =
     \<lparr> flat_backup = Blob (Some ''A'') (Some ''https://api.x.ai'') (Some ''auto''),
       user_id_item = Some ''user-1'',
       idb =
         \<lparr> settings_store =
             [\<lparr> ls_id = ''id-1'', ls_user_id = ''user-1'', ls_api_key = ''B'',
                ls_base_url = ''https://api.x.ai'', ls_model = ''grok-2-latest'',
                ls_created_at = ''2024-01-01T00:00:00.000Z'',
                ls_updated_at = ''2024-01-01T00:00:00.000Z'' \<rparr>],
           messages_store =
             [\<lparr> lm_id = ''m-1'', lm_user_id = ''user-1'', lm_role = User, lm_content = ''hi'',
                lm_timestamp = 1700000000000, lm_attachments = None,
                lm_created_at = ''2023-11-14T22:13:20.000Z'' \<rparr>] \<rparr>,
       settings_state = \<lparr> apiKey = ''A'', baseUrl = ''https://api.x.ai'', model = ''auto'' \<rparr>,
       settings_isLoading = False,
       messages_state =
         [\<lparr> role = User, content = ''hi'', timestamp = 1700000000000, attachments = None \<rparr>],
       messages_isLoading = False,
       error_state = None,
       app_isLoading = False,
       isSettingsOpen = False,
       trace = [] \<rparr>"

section \<open>The settings store: one row per user\<close>

lemma replace_split:
  assumes d: "distinct (map ls_id rows)" and mem: "r0 \<in> set rows" and same: "ls_id r0 = ls_id row"
  shows "\<exists>pre post. rows = pre @ r0 # post
           \<and> map (\<lambda>r. if ls_id r = ls_id row then row else r) rows = pre @ row # post
           \<and> (\<forall>r\<in>set pre. ls_id r \<noteq> ls_id row) \<and> (\<forall>r\<in>set post. ls_id r \<noteq> ls_id row)"
proof -
  obtain pre post where split: "rows = pre @ r0 # post"
    using mem by (meson split_list)
  have dd: "distinct (map ls_id pre @ ls_id r0 # map ls_id post)"
    using d split by simp
  have p1: "\<forall>r\<in>set pre. ls_id r \<noteq> ls_id row"
  proof
    fix r assume "r \<in> set pre"
    then have "ls_id r \<in> set (map ls_id pre)" by simp
    then show "ls_id r \<noteq> ls_id row" using dd same by auto
  qed
  have p2: "\<forall>r\<in>set post. ls_id r \<noteq> ls_id row"
  proof
    fix r assume "r \<in> set post"
    then have "ls_id r \<in> set (map ls_id post)" by simp
    then show "ls_id r \<noteq> ls_id row" using dd same by auto
  qed
  have m1: "map (\<lambda>r. if ls_id r = ls_id row then row else r) pre = pre"
    using p1 by (simp add: map_idI)
  have m2: "map (\<lambda>r. if ls_id r = ls_id row then row else r) post = post"
    using p2 by (simp add: map_idI)
  have "map (\<lambda>r. if ls_id r = ls_id row then row else r) rows = pre @ row # post"
    unfolding split using m1 m2 same by simp
  then show ?thesis using split p1 p2 by blast
qed

lemma find_middle:
  "\<forall>r\<in>set pre. \<not> P r \<Longrightarrow> P x \<Longrightarrow> find P (pre @ x # post) = Some x"
  by (induction pre) simp_all

lemma filter_middle:
  "\<forall>r\<in>set pre. \<not> P r \<Longrightarrow> \<forall>r\<in>set post. \<not> P r \<Longrightarrow> P x \<Longrightarrow> filter P (pre @ x # post) = [x]"
  by (simp add: filter_empty_conv)

lemma store_put_ok:
  assumes wf: "settings_wf rows"
    and uniq: "\<forall>r\<in>set rows. ls_user_id r = ls_user_id row \<longrightarrow> ls_id r = ls_id row"
  shows "\<exists>rows'. store_put row rows = Inr rows' \<and> settings_wf rows'
          \<and> index_get_user_id rows' (ls_user_id row) = Some row
          \<and> count_user rows' (ls_user_id row) = 1"
proof -
  have d1: "distinct (map ls_id rows)" and d2: "distinct (map ls_user_id rows)"
    using wf by (simp_all add: settings_wf_def)
  have no_conflict: "\<not> list_ex (\<lambda>r. ls_user_id r = ls_user_id row \<and> ls_id r \<noteq> ls_id row) rows"
    using uniq by (auto simp: list_ex_iff)
  show ?thesis
  proof (cases "list_ex (\<lambda>r. ls_id r = ls_id row) rows")
    case True
    then obtain r0 where r0: "r0 \<in> set rows" "ls_id r0 = ls_id row"
      by (auto simp: list_ex_iff)
    obtain pre post where split: "rows = pre @ r0 # post"
      and repl: "map (\<lambda>r. if ls_id r = ls_id row then row else r) rows = pre @ row # post"
      and p1: "\<forall>r\<in>set pre. ls_id r \<noteq> ls_id row" and p2: "\<forall>r\<in>set post. ls_id r \<noteq> ls_id row"
      using replace_split [OF d1 r0] by blast
    have u1: "\<forall>r\<in>set pre. ls_user_id r \<noteq> ls_user_id row"
      using uniq p1 split by auto
    have u2: "\<forall>r\<in>set post. ls_user_id r \<noteq> ls_user_id row"
      using uniq p2 split by auto
    have put: "store_put row rows = Inr (pre @ row # post)"
      using True no_conflict repl by (simp add: store_put_def)
    have ids: "map ls_id (pre @ row # post) = map ls_id rows"
      using split r0 by simp
    have users: "distinct (map ls_user_id (pre @ row # post))"
      using d2 u1 u2 unfolding split by auto
    have w: "settings_wf (pre @ row # post)"
      unfolding settings_wf_def using ids d1 users by metis
    have f: "index_get_user_id (pre @ row # post) (ls_user_id row) = Some row"
      unfolding index_get_user_id_def using u1 by (intro find_middle) auto
    have c: "count_user (pre @ row # post) (ls_user_id row) = 1"
      unfolding count_user_def using filter_middle [of pre "\<lambda>r. ls_user_id r = ls_user_id row" post row] u1 u2
      by simp
    show ?thesis using put w f c by blast
  next
    case False
    have none: "\<forall>r\<in>set rows. ls_user_id r \<noteq> ls_user_id row"
      using False uniq by (auto simp: list_ex_iff)
    have put: "store_put row rows = Inr (rows @ [row])"
      using False no_conflict by (simp add: store_put_def)
    have w: "settings_wf (rows @ [row])"
      using d1 d2 False none by (auto simp: settings_wf_def list_ex_iff)
    have f: "index_get_user_id (rows @ [row]) (ls_user_id row) = Some row"
      unfolding index_get_user_id_def using none find_middle [of rows "\<lambda>r. ls_user_id r = ls_user_id row" row "[]"]
      by simp
    have c: "count_user (rows @ [row]) (ls_user_id row) = 1"
      using none by (simp add: count_user_def filter_empty_conv)
    show ?thesis using put w f c by blast
  qed
qed

lemma distinct_map_eq:
  "distinct (map f xs) \<Longrightarrow> x \<in> set xs \<Longrightarrow> y \<in> set xs \<Longrightarrow> f x = f y \<Longrightarrow> x = y"
  by (simp add: distinct_map inj_on_def)

lemma saveSettings_ok:
  assumes wf: "settings_wf (settings_store db)"
    and ok: "open_ok c" "req_ok c" "req2_ok c"
  shows "\<exists>db' r. localDb_saveSettings c db userId s = Inr db'
          \<and> settings_wf (settings_store db')
          \<and> messages_store db' = messages_store db
          \<and> index_get_user_id (settings_store db') userId = Some r
          \<and> count_user (settings_store db') userId = 1
          \<and> ls_user_id r = userId
          \<and> ls_api_key r = api_key s \<and> ls_base_url r = base_url s \<and> ls_model r = model_f s
          \<and> ls_updated_at r = iso_now c
          \<and> ls_id r = (case index_get_user_id (settings_store db) userId of
                          Some old \<Rightarrow> ls_id old | None \<Rightarrow> uuid c)
          \<and> ls_created_at r = (case index_get_user_id (settings_store db) userId of
                          Some old \<Rightarrow> ls_created_at old | None \<Rightarrow> iso_now c)"
proof -
  let ?rows = "settings_store db"
  let ?fresh = "\<lparr> ls_id = uuid c, ls_user_id = userId, ls_api_key = api_key s,
                 ls_base_url = base_url s, ls_model = model_f s,
                 ls_created_at = iso_now c, ls_updated_at = iso_now c \<rparr>"
  let ?row = "case index_get_user_id ?rows userId of
                Some existing \<Rightarrow> ?fresh\<lparr> ls_id := ls_id existing,
                                         ls_created_at := ls_created_at existing,
                                         ls_updated_at := iso_now c \<rparr>
              | None \<Rightarrow> ?fresh"
  have user: "ls_user_id ?row = userId"
    by (simp split: option.split)
  have save: "localDb_saveSettings c db userId s =
               (case store_put ?row ?rows of Inl e \<Rightarrow> Inl e | Inr rows \<Rightarrow> Inr (db\<lparr>settings_store := rows\<rparr>))"
    using ok by (simp add: localDb_saveSettings_def Let_def)
  have uniq: "\<forall>r\<in>set ?rows. ls_user_id r = ls_user_id ?row \<longrightarrow> ls_id r = ls_id ?row"
  proof (cases "index_get_user_id ?rows userId")
    case None
    then have "\<forall>r\<in>set ?rows. ls_user_id r \<noteq> userId"
      by (auto simp: index_get_user_id_def find_None_iff)
    then show ?thesis using user by metis
  next
    case (Some existing)
    then have ex: "existing \<in> set ?rows" "ls_user_id existing = userId"
      by (auto simp: index_get_user_id_def find_Some_iff)
    have d2: "distinct (map ls_user_id ?rows)"
      using wf by (simp add: settings_wf_def)
    have "\<forall>r\<in>set ?rows. ls_user_id r = userId \<longrightarrow> r = existing"
      using distinct_map_eq [OF d2 _ ex(1)] ex(2) by metis
    moreover have "ls_id ?row = ls_id existing"
      using Some by simp
    ultimately show ?thesis using user by metis
  qed
  obtain rows' where put: "store_put ?row ?rows = Inr rows'"
    and w: "settings_wf rows'"
    and f: "index_get_user_id rows' (ls_user_id ?row) = Some ?row"
    and cnt: "count_user rows' (ls_user_id ?row) = 1"
    using store_put_ok [OF wf uniq] by blast
  have res: "localDb_saveSettings c db userId s = Inr (db\<lparr>settings_store := rows'\<rparr>)"
    using save put by simp
  have fields: "ls_api_key ?row = api_key s" "ls_base_url ?row = base_url s"
    "ls_model ?row = model_f s" "ls_updated_at ?row = iso_now c"
    by (simp_all split: option.split)
  have key: "ls_id ?row = (case index_get_user_id ?rows userId of Some old \<Rightarrow> ls_id old | None \<Rightarrow> uuid c)"
    "ls_created_at ?row = (case index_get_user_id ?rows userId of Some old \<Rightarrow> ls_created_at old | None \<Rightarrow> iso_now c)"
    by (simp_all split: option.split)
  show ?thesis
    apply (rule exI [of _ "db\<lparr>settings_store := rows'\<rparr>"])
    apply (rule exI [of _ ?row])
    using res w f cnt user fields key
    apply simp
    done
qed

lemma saveSettings_seq_ok:
  assumes "settings_wf (settings_store db)"
    and "calls \<noteq> []"
    and "\<forall>x\<in>set calls. open_ok (fst x) \<and> req_ok (fst x) \<and> req2_ok (fst x)"
  shows "\<exists>db' r. saveSettings_seq calls db userId = Inr db'
          \<and> settings_wf (settings_store db')
          \<and> index_get_user_id (settings_store db') userId = Some r
          \<and> count_user (settings_store db') userId = 1
          \<and> ls_api_key r = api_key (snd (last calls))
          \<and> ls_base_url r = base_url (snd (last calls))
          \<and> ls_model r = model_f (snd (last calls))
          \<and> ls_id r = (case index_get_user_id (settings_store db) userId of
                          Some old \<Rightarrow> ls_id old | None \<Rightarrow> uuid (fst (hd calls)))
          \<and> ls_created_at r = (case index_get_user_id (settings_store db) userId of
                          Some old \<Rightarrow> ls_created_at old | None \<Rightarrow> iso_now (fst (hd calls)))"
  using assms
proof (induction calls arbitrary: db)
  case Nil
  then show ?case by simp
next
  case (Cons x rest)
  obtain c s where x: "x = (c, s)" by (cases x)
  have okc: "open_ok c" "req_ok c" "req2_ok c"
    using Cons.prems(3) x by simp_all
  obtain db1 r1 where s1: "localDb_saveSettings c db userId s = Inr db1"
    and w1: "settings_wf (settings_store db1)"
    and f1: "index_get_user_id (settings_store db1) userId = Some r1"
    and c1: "count_user (settings_store db1) userId = 1"
    and v1: "ls_api_key r1 = api_key s" "ls_base_url r1 = base_url s" "ls_model r1 = model_f s"
    and k1: "ls_id r1 = (case index_get_user_id (settings_store db) userId of
                          Some old \<Rightarrow> ls_id old | None \<Rightarrow> uuid c)"
            "ls_created_at r1 = (case index_get_user_id (settings_store db) userId of
                          Some old \<Rightarrow> ls_created_at old | None \<Rightarrow> iso_now c)"
    using saveSettings_ok [OF Cons.prems(1) okc, of userId s] by blast
  show ?case
  proof (cases "rest = []")
    case True
    have "saveSettings_seq (x # rest) db userId = Inr db1"
      using True x s1 by simp
    then show ?thesis using True x w1 f1 c1 v1 k1 by (simp split: option.split)
  next
    case False
    have okrest: "\<forall>x\<in>set rest. open_ok (fst x) \<and> req_ok (fst x) \<and> req2_ok (fst x)"
      using Cons.prems(3) by simp
    obtain db' r where s2: "saveSettings_seq rest db1 userId = Inr db'"
      and w2: "settings_wf (settings_store db')"
      and f2: "index_get_user_id (settings_store db') userId = Some r"
      and c2: "count_user (settings_store db') userId = 1"
      and v2: "ls_api_key r = api_key (snd (last rest))" "ls_base_url r = base_url (snd (last rest))"
              "ls_model r = model_f (snd (last rest))"
      and k2: "ls_id r = (case index_get_user_id (settings_store db1) userId of
                          Some old \<Rightarrow> ls_id old | None \<Rightarrow> uuid (fst (hd rest)))"
              "ls_created_at r = (case index_get_user_id (settings_store db1) userId of
                          Some old \<Rightarrow> ls_created_at old | None \<Rightarrow> iso_now (fst (hd rest)))"
      using Cons.IH [OF w1 False okrest] by blast
    have seq: "saveSettings_seq (x # rest) db userId = Inr db'"
      using x s1 s2 by simp
    have k: "ls_id r = ls_id r1" "ls_created_at r = ls_created_at r1"
      using k2 f1 by simp_all
    show ?thesis
      using seq w2 f2 c2 v2 k k1 False x by (simp split: option.split)
  qed
qed

text \<open>
  Claim C1. On a settings store that satisfies the invariant of IndexedDB, any non-empty
  sequence of \<open>saveSettings\<close> calls for one \<open>userId\<close>, each of whose requests succeeds,
  followed by \<open>loadSettings(userId)\<close>, returns a row whose \<open>api_key\<close>, \<open>base_url\<close> and
  \<open>model\<close> are those of the last save. The store then holds exactly one row of that
  user; its primary key and its \<open>created_at\<close> are those of the row the user had before
  the first save, or else the ones the first save generated.
\<close>

theorem saveSettings_then_loadSettings:
  assumes "settings_wf (settings_store db)"
    and "calls \<noteq> []"
    and "\<forall>x\<in>set calls. open_ok (fst x) \<and> req_ok (fst x) \<and> req2_ok (fst x)"
    and "open_ok c'" and "req_ok c'"
  shows "\<exists>db' r. saveSettings_seq calls db userId = Inr db'
          \<and> localDb_loadSettings c' db' userId = Inr (Some r)
          \<and> ls_api_key r = api_key (snd (last calls))
          \<and> ls_base_url r = base_url (snd (last calls))
          \<and> ls_model r = model_f (snd (last calls))
          \<and> count_user (settings_store db') userId = 1
          \<and> settings_wf (settings_store db')
          \<and> ls_id r = (case index_get_user_id (settings_store db) userId of
                          Some old \<Rightarrow> ls_id old | None \<Rightarrow> uuid (fst (hd calls)))
          \<and> ls_created_at r = (case index_get_user_id (settings_store db) userId of
                          Some old \<Rightarrow> ls_created_at old | None \<Rightarrow> iso_now (fst (hd calls)))"
proof -
  obtain db' r where *: "saveSettings_seq calls db userId = Inr db'"
          "settings_wf (settings_store db')"
          "index_get_user_id (settings_store db') userId = Some r"
          "count_user (settings_store db') userId = 1"
          "ls_api_key r = api_key (snd (last calls))"
          "ls_base_url r = base_url (snd (last calls))"
          "ls_model r = model_f (snd (last calls))"
          "ls_id r = (case index_get_user_id (settings_store db) userId of
                          Some old \<Rightarrow> ls_id old | None \<Rightarrow> uuid (fst (hd calls)))"
          "ls_created_at r = (case index_get_user_id (settings_store db) userId of
                          Some old \<Rightarrow> ls_created_at old | None \<Rightarrow> iso_now (fst (hd calls)))"
    using saveSettings_seq_ok [OF assms(1,2,3), of userId] by blast
  have "localDb_loadSettings c' db' userId = Inr (Some r)"
    using assms(4,5) *(3) by (simp add: localDb_loadSettings_def)
  then show ?thesis using * by blast
qed

text \<open>An instance: two saves for a user who has a row already, beside another user's row.\<close>

theorem saveSettings_then_loadSettings_witness:
  "\<exists>db' r.
     saveSettings_seq
       [(\<lparr> open_ok = True, req_ok = True, req2_ok = True, uuid = ''id-7'', iso_now = ''2024-05-01'', ms_now = 100 \<rparr>,
         \<lparr> api_key = ''A'', base_url = ''https://api.x.ai'', model_f = ''auto'' \<rparr>),
        (\<lparr> open_ok = True, req_ok = True, req2_ok = True, uuid = ''id-8'', iso_now = ''2024-05-02'', ms_now = 200 \<rparr>,
         \<lparr> api_key = ''B'', base_url = ''https://example.org'', model_f = ''grok-2'' \<rparr>)]
       \<lparr> settings_store =
           [\<lparr> ls_id = ''id-1'', ls_user_id = ''u1'', ls_api_key = ''old'', ls_base_url = ''x'',
              ls_model = ''m'', ls_created_at = ''2024-01-01'', ls_updated_at = ''2024-01-01'' \<rparr>,
            \<lparr> ls_id = ''id-2'', ls_user_id = ''u2'', ls_api_key = ''k2'', ls_base_url = ''y'',
              ls_model = ''m'', ls_created_at = ''2024-02-02'', ls_updated_at = ''2024-02-02'' \<rparr>],
          messages_store = [] \<rparr>
       ''u1'' = Inr db'
     \<and> localDb_loadSettings
          \<lparr> open_ok = True, req_ok = True, req2_ok = True, uuid = ''id-9'', iso_now = ''2024-05-03'', ms_now = 300 \<rparr>
          db' ''u1'' = Inr (Some r)
     \<and> ls_api_key r = ''B'' \<and> ls_base_url r = ''https://example.org'' \<and> ls_model r = ''grok-2''
     \<and> count_user (settings_store db') ''u1'' = 1
     \<and> ls_id r = ''id-1'' \<and> ls_created_at r = ''2024-01-01''"
  (is "\<exists>db' r. saveSettings_seq ?calls ?db ?u = Inr db' \<and> localDb_loadSettings ?c db' ?u = _ \<and> _")
proof -
  have wf: "settings_wf (settings_store ?db)"
    by (simp add: settings_wf_def)
  have ok: "\<forall>x\<in>set ?calls. open_ok (fst x) \<and> req_ok (fst x) \<and> req2_ok (fst x)"
    by simp
  show ?thesis
    using saveSettings_then_loadSettings [OF wf _ ok, of ?c ?u]
    by (simp add: index_get_user_id_def) blast
qed

section \<open>Messages in the order of the index\<close>

lemma cursor_loop_no_limit:
  "not_limit limit \<Longrightarrow> cursor_loop limit xs acc = acc @ xs"
  by (induction xs arbitrary: acc) simp_all

lemma cursor_loop_limit:
  "1 \<le> n \<Longrightarrow> length acc < nat n \<Longrightarrow> cursor_loop (Some n) xs acc = take (nat n) (acc @ xs)"
proof (induction xs arbitrary: acc)
  case Nil
  then show ?case by simp
next
  case (Cons v rest)
  show ?case
  proof (cases "int (length acc) + 1 < n")
    case True
    then have "length (acc @ [v]) < nat n" by simp
    then have "cursor_loop (Some n) rest (acc @ [v]) = take (nat n) ((acc @ [v]) @ rest)"
      using Cons.IH [OF Cons.prems(1)] by blast
    then show ?thesis using True Cons.prems by (simp add: not_limit_def length_below_def)
  next
    case False
    then have len: "nat n = Suc (length acc)" using Cons.prems by linarith
    have "take (nat n) (acc @ v # rest) = acc @ [v]"
      unfolding len by simp
    then show ?thesis using False Cons.prems by (simp add: not_limit_def length_below_def)
  qed
qed

lemma sorted_fst:
  fixes f :: "'a \<Rightarrow> int \<times> string"
  shows "sorted (map f xs) \<Longrightarrow> sorted (map (\<lambda>x. fst (f x)) xs)"
  by (induction xs) (auto simp: less_eq_prod_def)

lemma index_sorted: "sorted (map lm_timestamp (index_user_timestamp rows userId lo hi))"
proof -
  have "sorted (map (\<lambda>r. (lm_timestamp r, lm_id r)) (index_user_timestamp rows userId lo hi))"
    unfolding index_user_timestamp_def by (rule sorted_sort_key)
  from sorted_fst [OF this] show ?thesis by simp
qed

lemma index_set:
  "set (index_user_timestamp rows userId lo hi) =
     {r \<in> set rows. lm_user_id r = userId \<and> lo \<le> lm_timestamp r \<and> lm_timestamp r \<le> hi}"
  by (simp add: index_user_timestamp_def)

lemma strict_pairs_sorted:
  fixes xs :: "LocalMessage list"
  shows "sorted_wrt (<) (map lm_timestamp xs) \<Longrightarrow> sorted (map (\<lambda>r. (lm_timestamp r, lm_id r)) xs)"
  by (induction xs) (auto simp: less_eq_prod_def)

lemma index_of_increasing:
  assumes "sorted_wrt (<) (map lm_timestamp (filter (\<lambda>r. lm_user_id r = userId \<and> lo \<le> lm_timestamp r \<and> lm_timestamp r \<le> hi) rows))"
  shows "index_user_timestamp rows userId lo hi =
           filter (\<lambda>r. lm_user_id r = userId \<and> lo \<le> lm_timestamp r \<and> lm_timestamp r \<le> hi) rows"
  unfolding index_user_timestamp_def
  by (rule sort_key_id_if_sorted [OF strict_pairs_sorted [OF assms]])

lemma saveMessage_appends:
  "localDb_saveMessage c db userId m = Inr db' \<Longrightarrow>
     messages_store db' = messages_store db @ [messageData c userId m]"
  by (auto simp: localDb_saveMessage_def store_add_def messageData_def Let_def split: if_splits)

lemma saveMessage_seq_appends:
  "saveMessage_seq calls db userId = Inr db' \<Longrightarrow>
     messages_store db' = messages_store db @ map (\<lambda>x. messageData (fst x) userId (snd x)) calls"
proof (induction calls arbitrary: db)
  case Nil
  then show ?case by simp
next
  case (Cons x rest)
  obtain c m where x: "x = (c, m)" by (cases x)
  from Cons.prems x obtain db1 where s1: "localDb_saveMessage c db userId m = Inr db1"
    and s2: "saveMessage_seq rest db1 userId = Inr db'"
    by (auto split: sum.splits)
  show ?case
    using Cons.IH [OF s2] saveMessage_appends [OF s1] x by simp
qed

lemma message_of_messageData: "message_of (messageData c userId m) = m"
  by (simp add: message_of_def messageData_def)

lemma filter_saved:
  assumes "\<forall>x\<in>set calls. lo \<le> timestamp (snd x) \<and> timestamp (snd x) \<le> hi"
  shows "filter (\<lambda>r. lm_user_id r = userId \<and> lo \<le> lm_timestamp r \<and> lm_timestamp r \<le> hi)
           (map (\<lambda>x. messageData (fst x) userId (snd x)) calls)
         = map (\<lambda>x. messageData (fst x) userId (snd x)) calls"
  using assms by (induction calls) (simp_all add: messageData_def)

lemma load_after_saves:
  assumes seq: "saveMessage_seq calls db0 userId = Inr db"
    and none: "\<forall>r\<in>set (messages_store db0). lm_user_id r \<noteq> userId"
    and inc: "sorted_wrt (<) (map (\<lambda>x. timestamp (snd x)) calls)"
    and rng: "\<forall>x\<in>set calls. lo \<le> timestamp (snd x) \<and> timestamp (snd x) \<le> hi"
  shows "map message_of (index_user_timestamp (messages_store db) userId lo hi) = map snd calls"
proof -
  let ?P = "\<lambda>r. lm_user_id r = userId \<and> lo \<le> lm_timestamp r \<and> lm_timestamp r \<le> hi"
  let ?new = "map (\<lambda>x. messageData (fst x) userId (snd x)) calls"
  have store: "messages_store db = messages_store db0 @ ?new"
    by (rule saveMessage_seq_appends [OF seq])
  have old: "filter ?P (messages_store db0) = []"
    using none by (simp add: filter_empty_conv)
  have flt: "filter ?P (messages_store db) = ?new"
    unfolding store using old filter_saved [OF rng, of userId] by simp
  have ts: "map lm_timestamp ?new = map (\<lambda>x. timestamp (snd x)) calls"
    by (simp add: messageData_def)
  have "sorted_wrt (<) (map lm_timestamp (filter ?P (messages_store db)))"
    unfolding flt ts by (rule inc)
  then have "index_user_timestamp (messages_store db) userId lo hi = filter ?P (messages_store db)"
    by (rule index_of_increasing)
  then have "index_user_timestamp (messages_store db) userId lo hi = ?new"
    using flt by simp
  moreover have "map message_of ?new = map snd calls"
    by (induction calls) (simp_all add: message_of_messageData)
  ultimately show ?thesis
    by simp
qed

text \<open>
  Claim C5, as amended. When the database opens, the cursor request succeeds and
  \<open>Date.now()\<close> is not negative, \<open>loadMessages(userId, limit?)\<close> resolves with rows of
  that user whose timestamps are between 0 and \<open>Date.now()\<close>, in non-decreasing order of
  timestamp. Without a limit, and with the limit 0, these are all such rows. With a limit
  of at least 1 they are the first \<open>limit\<close> of them, so at most \<open>limit\<close>. When the
  database holds, for that user, exactly the messages of a sequence of successful
  \<open>saveMessage\<close> calls with strictly increasing timestamps in that range, the rows
  loaded without a limit are the saved messages in the order they were saved.
\<close>

theorem loadMessages_ascending_bounded_limited:
  assumes "open_ok c" and "req_ok c" and "0 \<le> ms_now c"
  shows "\<exists>ms. localDb_loadMessages c db userId limit = Inr ms
          \<and> sorted (map lm_timestamp ms)
          \<and> (\<forall>m\<in>set ms. m \<in> set (messages_store db) \<and> lm_user_id m = userId
                 \<and> 0 \<le> lm_timestamp m \<and> lm_timestamp m \<le> ms_now c)
          \<and> (limit = None \<or> limit = Some 0 \<longrightarrow>
                 ms = index_user_timestamp (messages_store db) userId 0 (ms_now c))
          \<and> (\<forall>n. limit = Some n \<and> 1 \<le> n \<longrightarrow>
                 length ms \<le> nat n
                 \<and> ms = take (nat n) (index_user_timestamp (messages_store db) userId 0 (ms_now c)))
          \<and> (\<forall>calls db0. limit = None
                 \<and> saveMessage_seq calls db0 userId = Inr db
                 \<and> (\<forall>r\<in>set (messages_store db0). lm_user_id r \<noteq> userId)
                 \<and> sorted_wrt (<) (map (\<lambda>x. timestamp (snd x)) calls)
                 \<and> (\<forall>x\<in>set calls. 0 \<le> timestamp (snd x) \<and> timestamp (snd x) \<le> ms_now c)
               \<longrightarrow> map message_of ms = map snd calls)"
proof -
  let ?all = "index_user_timestamp (messages_store db) userId 0 (ms_now c)"
  let ?ms = "cursor_loop limit ?all []"
  have res: "localDb_loadMessages c db userId limit = Inr ?ms"
    using assms by (simp add: localDb_loadMessages_def)
  have shape: "?ms = ?all \<or> (\<exists>k. ?ms = take k ?all)"
  proof (cases "not_limit limit")
    case True
    then show ?thesis using cursor_loop_no_limit [of limit ?all "[]"] by simp
  next
    case False
    then obtain n where n: "limit = Some n" "n \<noteq> 0"
      by (auto simp: not_limit_def split: option.splits)
    show ?thesis
    proof (cases "1 \<le> n")
      case True
      then show ?thesis using cursor_loop_limit [of n "[]" ?all] n by auto
    next
      case False
      then have neg: "n < 0" using n by simp
      have "cursor_loop (Some n) ?all [] = take 1 ?all"
        using neg by (cases ?all) (simp_all add: not_limit_def length_below_def)
      then show ?thesis using n by blast
    qed
  qed
  have srt_all: "sorted (map lm_timestamp ?all)"
    by (rule index_sorted)
  have srt: "sorted (map lm_timestamp ?ms)"
  proof -
    from shape consider "?ms = ?all" | k where "?ms = take k ?all" by blast
    then show ?thesis
    proof cases
      case 1
      then show ?thesis using srt_all by simp
    next
      case 2
      have "sorted (take k (map lm_timestamp ?all))"
        using srt_all by (rule sorted_wrt_take)
      then show ?thesis using 2 by (simp add: take_map)
    qed
  qed
  have mem: "set ?ms \<subseteq> set ?all"
  proof -
    from shape consider "?ms = ?all" | k where "?ms = take k ?all" by blast
    then show ?thesis
    proof cases
      case 1
      then show ?thesis by simp
    next
      case 2
      then show ?thesis using set_take_subset [of k ?all] by simp
    qed
  qed
  have bnd: "\<forall>m\<in>set ?ms. m \<in> set (messages_store db) \<and> lm_user_id m = userId
                 \<and> 0 \<le> lm_timestamp m \<and> lm_timestamp m \<le> ms_now c"
  proof
    fix m assume "m \<in> set ?ms"
    then have "m \<in> set ?all" using mem by blast
    then show "m \<in> set (messages_store db) \<and> lm_user_id m = userId
                 \<and> 0 \<le> lm_timestamp m \<and> lm_timestamp m \<le> ms_now c"
      unfolding index_set by simp
  qed
  have nolim: "limit = None \<or> limit = Some 0 \<longrightarrow> ?ms = ?all"
  proof
    assume "limit = None \<or> limit = Some 0"
    then have "not_limit limit" by (auto simp: not_limit_def)
    then show "?ms = ?all" using cursor_loop_no_limit [of limit ?all "[]"] by simp
  qed
  have lim: "\<forall>n. limit = Some n \<and> 1 \<le> n \<longrightarrow> length ?ms \<le> nat n \<and> ?ms = take (nat n) ?all"
  proof (intro allI impI)
    fix n assume a: "limit = Some n \<and> 1 \<le> n"
    then have "cursor_loop (Some n) ?all [] = take (nat n) ?all"
      using cursor_loop_limit [of n "[]" ?all] by simp
    then show "length ?ms \<le> nat n \<and> ?ms = take (nat n) ?all"
      using a by simp
  qed
  have sv: "\<forall>calls db0. limit = None
                 \<and> saveMessage_seq calls db0 userId = Inr db
                 \<and> (\<forall>r\<in>set (messages_store db0). lm_user_id r \<noteq> userId)
                 \<and> sorted_wrt (<) (map (\<lambda>x. timestamp (snd x)) calls)
                 \<and> (\<forall>x\<in>set calls. 0 \<le> timestamp (snd x) \<and> timestamp (snd x) \<le> ms_now c)
               \<longrightarrow> map message_of ?ms = map snd calls"
  proof (intro allI impI)
    fix calls db0
    assume a: "limit = None
                 \<and> saveMessage_seq calls db0 userId = Inr db
                 \<and> (\<forall>r\<in>set (messages_store db0). lm_user_id r \<noteq> userId)
                 \<and> sorted_wrt (<) (map (\<lambda>x. timestamp (snd x)) calls)
                 \<and> (\<forall>x\<in>set calls. 0 \<le> timestamp (snd x) \<and> timestamp (snd x) \<le> ms_now c)"
    then have "?ms = ?all" using nolim by simp
    moreover have "map message_of ?all = map snd calls"
      using a by (intro load_after_saves [of calls db0]) simp_all
    ultimately show "map message_of ?ms = map snd calls" by simp
  qed
  show ?thesis
    by (rule exI [of _ ?ms]) (intro conjI res srt bnd nolim lim sv)
qed

text \<open>
  An instance of each part: a limit of 1 on a store with two rows of the user, and two
  messages saved into an empty store and loaded without a limit.
\<close>

theorem loadMessages_ascending_bounded_limited_witness:
  "(\<exists>ms. localDb_loadMessages
           \<lparr> open_ok = True, req_ok = True, req2_ok = True, uuid = ''id-9'', iso_now = ''2024-05-03'', ms_now = 300 \<rparr>
           \<lparr> settings_store = [],
             messages_store =
               [\<lparr> lm_id = ''m1'', lm_user_id = ''u1'', lm_role = User, lm_content = ''hi'',
                  lm_timestamp = 20, lm_attachments = None, lm_created_at = ''t1'' \<rparr>,
                \<lparr> lm_id = ''m2'', lm_user_id = ''u1'', lm_role = Assistant, lm_content = ''hello'',
                  lm_timestamp = 10, lm_attachments = None, lm_created_at = ''t2'' \<rparr>,
                \<lparr> lm_id = ''m3'', lm_user_id = ''u2'', lm_role = User, lm_content = ''other'',
                  lm_timestamp = 5, lm_attachments = None, lm_created_at = ''t3'' \<rparr>] \<rparr>
           ''u1'' (Some 1) = Inr ms
         \<and> sorted (map lm_timestamp ms) \<and> length ms \<le> 1
         \<and> ms = [\<lparr> lm_id = ''m2'', lm_user_id = ''u1'', lm_role = Assistant, lm_content = ''hello'',
                    lm_timestamp = 10, lm_attachments = None, lm_created_at = ''t2'' \<rparr>])
   \<and> (\<exists>db ms.
         saveMessage_seq
           [(\<lparr> open_ok = True, req_ok = True, req2_ok = True, uuid = ''a'', iso_now = ''t1'', ms_now = 10 \<rparr>,
             \<lparr> role = User, content = ''hi'', timestamp = 10, attachments = None \<rparr>),
            (\<lparr> open_ok = True, req_ok = True, req2_ok = True, uuid = ''b'', iso_now = ''t2'', ms_now = 20 \<rparr>,
             \<lparr> role = Assistant, content = ''hello'', timestamp = 20, attachments = None \<rparr>)]
           \<lparr> settings_store = [], messages_store = [] \<rparr> ''u1'' = Inr db
         \<and> localDb_loadMessages
             \<lparr> open_ok = True, req_ok = True, req2_ok = True, uuid = ''c'', iso_now = ''t3'', ms_now = 30 \<rparr>
             db ''u1'' None = Inr ms
         \<and> map message_of ms =
             [\<lparr> role = User, content = ''hi'', timestamp = 10, attachments = None \<rparr>,
              \<lparr> role = Assistant, content = ''hello'', timestamp = 20, attachments = None \<rparr>])"
  (is "(\<exists>ms. localDb_loadMessages ?c1 ?db1 ?u (Some 1) = Inr ms \<and> _)
       \<and> (\<exists>db ms. saveMessage_seq ?calls ?db0 ?u = Inr db \<and> localDb_loadMessages ?c2 db ?u None = Inr ms \<and> _)")
proof
  show "\<exists>ms. localDb_loadMessages ?c1 ?db1 ?u (Some 1) = Inr ms
         \<and> sorted (map lm_timestamp ms) \<and> length ms \<le> 1
         \<and> ms = [\<lparr> lm_id = ''m2'', lm_user_id = ''u1'', lm_role = Assistant, lm_content = ''hello'',
                    lm_timestamp = 10, lm_attachments = None, lm_created_at = ''t2'' \<rparr>]"
    using loadMessages_ascending_bounded_limited [of ?c1 ?db1 ?u "Some 1"]
    by (simp add: index_user_timestamp_def) 
next
  obtain db where seq: "saveMessage_seq ?calls ?db0 ?u = Inr db"
    by (simp add: localDb_saveMessage_def store_add_def messageData_def)
  have none: "\<forall>r\<in>set (messages_store ?db0). lm_user_id r \<noteq> ?u"
    by simp
  obtain ms where ld: "localDb_loadMessages ?c2 db ?u None = Inr ms"
    and sv: "\<forall>calls db0. None = (None :: int option)
                 \<and> saveMessage_seq calls db0 ?u = Inr db
                 \<and> (\<forall>r\<in>set (messages_store db0). lm_user_id r \<noteq> ?u)
                 \<and> sorted_wrt (<) (map (\<lambda>x. timestamp (snd x)) calls)
                 \<and> (\<forall>x\<in>set calls. 0 \<le> timestamp (snd x) \<and> timestamp (snd x) \<le> ms_now ?c2)
               \<longrightarrow> map message_of ms = map snd calls"
    using loadMessages_ascending_bounded_limited [of ?c2 db ?u None] by auto
  have "map message_of ms = map snd ?calls"
  proof (rule sv [rule_format], intro conjI)
    show "saveMessage_seq ?calls ?db0 ?u = Inr db" by (rule seq)
    show "\<forall>r\<in>set (messages_store ?db0). lm_user_id r \<noteq> ?u" by (rule none)
  qed simp_all
  then show "\<exists>db ms. saveMessage_seq ?calls ?db0 ?u = Inr db
         \<and> localDb_loadMessages ?c2 db ?u None = Inr ms
         \<and> map message_of ms =
             [\<lparr> role = User, content = ''hi'', timestamp = 10, attachments = None \<rparr>,
              \<lparr> role = Assistant, content = ''hello'', timestamp = 20, attachments = None \<rparr>]"
    using seq ld by auto
qed

text \<open>
  The claim as stated does not hold for the limit 0: \<open>!limit\<close> is true for it, the
  cursor runs to the end and both rows of the user are returned.
\<close>

theorem loadMessages_limit_zero_counterexample:
  "localDb_loadMessages
     \<lparr> open_ok = True, req_ok = True, req2_ok = True, uuid = ''id-9'', iso_now = ''2024-05-03'', ms_now = 300 \<rparr>
     \<lparr> settings_store = [],
       messages_store =
         [\<lparr> lm_id = ''m1'', lm_user_id = ''u1'', lm_role = User, lm_content = ''hi'',
            lm_timestamp = 20, lm_attachments = None, lm_created_at = ''t1'' \<rparr>,
          \<lparr> lm_id = ''m2'', lm_user_id = ''u1'', lm_role = Assistant, lm_content = ''hello'',
            lm_timestamp = 10, lm_attachments = None, lm_created_at = ''t2'' \<rparr>] \<rparr>
     ''u1'' (Some 0)
   = Inr [\<lparr> lm_id = ''m2'', lm_user_id = ''u1'', lm_role = Assistant, lm_content = ''hello'',
            lm_timestamp = 10, lm_attachments = None, lm_created_at = ''t2'' \<rparr>,
          \<lparr> lm_id = ''m1'', lm_user_id = ''u1'', lm_role = User, lm_content = ''hi'',
            lm_timestamp = 20, lm_attachments = None, lm_created_at = ''t1'' \<rparr>]
   \<and> \<not> int (length
          [\<lparr> lm_id = ''m2'', lm_user_id = ''u1'', lm_role = Assistant, lm_content = ''hello'',
             lm_timestamp = 10, lm_attachments = None, lm_created_at = ''t2'' \<rparr>,
           \<lparr> lm_id = ''m1'', lm_user_id = ''u1'', lm_role = User, lm_content = ''hi'',
             lm_timestamp = 20, lm_attachments = None, lm_created_at = ''t1'' \<rparr>]) \<le> 0"
  by (simp add: localDb_loadMessages_def index_user_timestamp_def not_limit_def length_below_def)

section \<open>What the helpers of the hooks change\<close>

lemmas example_defs = example_world_def example_env_def example_call_def

lemma getUserId_eq:
  "getUserId env w = (current_user env w, w\<lparr>user_id_item := Some (current_user env w)\<rparr>)"
  by (simp add: getUserId_def current_user_def split: option.split)

lemma current_user_frame [simp]:
  "current_user env (w\<lparr>trace := t\<rparr>) = current_user env w"
  "current_user env (w\<lparr>messages_state := ms\<rparr>) = current_user env w"
  "current_user env (w\<lparr>settings_state := s\<rparr>) = current_user env w"
  "current_user env (w\<lparr>flat_backup := f\<rparr>) = current_user env w"
  "current_user env (w\<lparr>idb := d\<rparr>) = current_user env w"
  "current_user env (w\<lparr>error_state := e\<rparr>) = current_user env w"
  "current_user env (w\<lparr>app_isLoading := b\<rparr>) = current_user env w"
  "current_user env (w\<lparr>user_id_item := Some (current_user env w)\<rparr>) = current_user env w"
  by (simp_all add: current_user_def split: option.split)

lemma current_user_stable:
  "user_id_item w' = Some (current_user env w) \<Longrightarrow> current_user env w' = current_user env w"
  by (simp add: current_user_def split: option.split)

lemma effects_of_trace:
  "trace w' = trace w @ evs \<Longrightarrow> effects w w' = filter (\<lambda>e. \<not> is_console e) evs"
  by (simp add: effects_def new_events_def)

lemma new_events_of_trace:
  "trace w' = trace w @ evs \<Longrightarrow> new_events w w' = evs"
  by (simp add: new_events_def)

lemma saveLocalSettings_fields:
  "idb (saveLocalSettings env s w) = idb w"
  "user_id_item (saveLocalSettings env s w) = user_id_item w"
  "settings_state (saveLocalSettings env s w) = settings_state w"
  "flat_backup (saveLocalSettings env s w) =
     (if flat_write_ok env then Blob (Some (apiKey s)) (Some (baseUrl s)) (Some (model s))
      else flat_backup w)"
  "trace (saveLocalSettings env s w) =
     trace w @ FlatWrite s #
       (if flat_write_ok env then [] else [ConsoleError ''Failed to save settings to localStorage:''])"
  by (simp_all add: saveLocalSettings_def console_error_def emit_def Let_def)

lemma saveLocalDbSettings_fields:
  "user_id_item (saveLocalDbSettings env c userId s w) = user_id_item w"
  "settings_state (saveLocalDbSettings env c userId s w) = settings_state w"
  "flat_backup (saveLocalDbSettings env c userId s w) = flat_backup w"
  "idb (saveLocalDbSettings env c userId s w) =
     (if idb_supported env
      then (case localDb_saveSettings c (idb w) userId (fields_of s) of Inr db' \<Rightarrow> db' | Inl e \<Rightarrow> idb w)
      else idb w)"
  "trace (saveLocalDbSettings env c userId s w) =
     trace w @
       (if idb_supported env
        then DbSaveSettings userId (fields_of s) #
               (case localDb_saveSettings c (idb w) userId (fields_of s) of
                  Inr db' \<Rightarrow> []
                | Inl e \<Rightarrow> [ConsoleError ''Failed to save settings to IndexedDB:''])
        else [])"
  by (simp_all add: saveLocalDbSettings_def console_error_def emit_def Let_def split: sum.split)

lemma setSettings_fields:
  "user_id_item (setSettings s w) = user_id_item w"
  "settings_state (setSettings s w) = s"
  "flat_backup (setSettings s w) = flat_backup w"
  "idb (setSettings s w) = idb w"
  "trace (setSettings s w) = trace w @ [SetSettings s]"
  by (simp_all add: setSettings_def emit_def)



lemma loadLocalSettings_frame:
  "idb (snd (loadLocalSettings w)) = idb w"
  "user_id_item (snd (loadLocalSettings w)) = user_id_item w"
  "settings_state (snd (loadLocalSettings w)) = settings_state w"
  by (simp_all add: loadLocalSettings_def console_error_def emit_def split: flat_blob.split)

lemma loadLocalDbSettings_found:
  assumes "idb_supported env" and "open_ok c" and "req_ok c"
    and "index_get_user_id (settings_store (idb w)) userId = Some r"
  shows "loadLocalDbSettings env c userId w =
           (Some \<lparr> apiKey = ls_api_key r, baseUrl = ls_base_url r, model = ls_model r \<rparr>,
            emit (DbLoadSettings userId) w)"
  using assms by (simp add: loadLocalDbSettings_def localDb_loadSettings_def emit_def Let_def)

lemma loadSettings_catch_store:
  assumes sup: "idb_supported env" and rd: "open_ok (call2 env)" "req_ok (call2 env)"
    and row: "index_get_user_id (settings_store (idb w)) (current_user env w) = Some r"
    and key: "ls_api_key r \<noteq> []"
  shows "settings_state (loadSettings_catch env w) =
           \<lparr> apiKey = ls_api_key r, baseUrl = ls_base_url r, model = ls_model r \<rparr>"
proof -
  let ?w1 = "console_error ''Failed to load settings:'' w"
  obtain ls w2 where l: "loadLocalSettings ?w1 = (ls, w2)" by (cases "loadLocalSettings ?w1")
  have fr: "idb w2 = idb w" "user_id_item w2 = user_id_item w"
    using loadLocalSettings_frame(1,2) [of ?w1] l by (simp_all add: console_error_def emit_def)
  have cu: "current_user env w2 = current_user env w"
    using fr by (simp add: current_user_def)
  let ?w3 = "w2\<lparr>user_id_item := Some (current_user env w)\<rparr>"
  have row3: "index_get_user_id (settings_store (idb ?w3)) (current_user env w) = Some r"
    using row fr by simp
  have ld: "loadLocalDbSettings env (call2 env) (current_user env w) ?w3 =
           (Some \<lparr> apiKey = ls_api_key r, baseUrl = ls_base_url r, model = ls_model r \<rparr>,
            emit (DbLoadSettings (current_user env w)) ?w3)"
    by (rule loadLocalDbSettings_found [OF sup rd row3])
  show ?thesis
    using key by (simp add: loadSettings_catch_def l getUserId_eq cu ld Let_def setSettings_def emit_def)
qed


section \<open>Loading the settings when the remote table fails\<close>

text \<open>
  Claim C2. When IndexedDB is supported and its reads succeed, the object store holds a
  row of the user with a non-empty \<open>api_key\<close>, and the remote query fails (the client is
  not configured, so that \<open>supabase.from\<close> throws, or the query throws, or it returns an
  error), the settings in memory after \<open>loadSettings\<close> are those of that row, whatever
  the flat backup holds; loading has ended.
\<close>

theorem loadSettings_prefers_object_store:
  assumes sup: "idb_supported env"
    and row: "index_get_user_id (settings_store (idb w)) (fst (getUserId env w)) = Some r"
    and key: "ls_api_key r \<noteq> []"
    and rd1: "open_ok (call1 env)" "req_ok (call1 env)"
    and rd2: "open_ok (call2 env)" "req_ok (call2 env)"
    and remote: "\<not> supabase_configured env \<or> select_outcome env = SelectThrows
                 \<or> select_outcome env = SelectError"
  shows "settings_state (useSettings_loadSettings env w) =
           \<lparr> apiKey = ls_api_key r, baseUrl = ls_base_url r, model = ls_model r \<rparr>
         \<and> apiKey (settings_state (useSettings_loadSettings env w)) = ls_api_key r
         \<and> settings_isLoading (useSettings_loadSettings env w) = False"
proof -
  let ?u = "current_user env w"
  let ?S = "\<lparr> apiKey = ls_api_key r, baseUrl = ls_base_url r, model = ls_model r \<rparr>"
  let ?w1 = "w\<lparr>user_id_item := Some ?u\<rparr>"
  have row': "index_get_user_id (settings_store (idb w)) ?u = Some r"
    using row by (simp add: getUserId_eq)
  obtain ls w2 where l: "loadLocalSettings ?w1 = (ls, w2)" by (cases "loadLocalSettings ?w1")
  have fr2: "idb w2 = idb w" "user_id_item w2 = Some ?u"
    using loadLocalSettings_frame(1,2) [of ?w1] l by simp_all
  have ld: "loadLocalDbSettings env (call1 env) ?u w2 = (Some ?S, emit (DbLoadSettings ?u) w2)"
    using row' fr2 by (intro loadLocalDbSettings_found [OF sup rd1]) simp
  let ?w3 = "emit (DbLoadSettings ?u) w2"
  let ?w4 = "if apiKey ls \<noteq> [] then setSettings ls ?w3 else ?w3"
  have fr4: "idb ?w4 = idb w" "user_id_item ?w4 = Some ?u"
    using fr2 by (simp_all add: setSettings_def emit_def)
  have unfold: "useSettings_loadSettings env w =
      (if \<not> supabase_configured env then loadSettings_catch env ?w4
       else (case select_outcome env of
               SelectThrows \<Rightarrow> loadSettings_catch env (emit (RemoteSelect ?u) ?w4)
             | SelectError \<Rightarrow>
                 setSettings ?S (console_error ''Error loading settings:'' (emit (RemoteSelect ?u) ?w4))
             | SelectRow data \<Rightarrow>
                 saveLocalDbSettings env (call2 env) ?u
                   \<lparr> apiKey = api_key data, baseUrl = base_url data, model = model_f data \<rparr>
                   (saveLocalSettings env
                      \<lparr> apiKey = api_key data, baseUrl = base_url data, model = model_f data \<rparr>
                      (setSettings \<lparr> apiKey = api_key data, baseUrl = base_url data, model = model_f data \<rparr>
                         (emit (RemoteSelect ?u) ?w4)))
             | SelectNoRow \<Rightarrow> setSettings ?S (emit (RemoteSelect ?u) ?w4)))
      \<lparr>settings_isLoading := False\<rparr>"
    using key by (simp add: useSettings_loadSettings_def getUserId_eq l ld Let_def split: select_result.split)
  have catch: "\<And>w'. idb w' = idb w \<Longrightarrow> user_id_item w' = Some ?u \<Longrightarrow>
                 settings_state (loadSettings_catch env w') = ?S"
  proof -
    fix w' :: world
    assume a: "idb w' = idb w" "user_id_item w' = Some ?u"
    have cu: "current_user env w' = ?u" using a(2) by (rule current_user_stable)
    show "settings_state (loadSettings_catch env w') = ?S"
      using loadSettings_catch_store [OF sup rd2, of w' r] row' key a(1) cu by simp
  qed
  have c1: "settings_state (loadSettings_catch env ?w4) = ?S"
    using fr4 by (intro catch)
  have c2: "settings_state (loadSettings_catch env (emit (RemoteSelect ?u) ?w4)) = ?S"
    using fr4 by (intro catch) (simp_all add: emit_def)
  have st: "settings_state (useSettings_loadSettings env w) = ?S"
    using remote c1 c2 unfolding unfold
    by (auto simp: setSettings_def emit_def)
  moreover have "settings_isLoading (useSettings_loadSettings env w) = False"
    unfolding unfold by simp
  ultimately show ?thesis by simp
qed


text \<open>
  An instance: the flat backup holds \<open>A\<close>, the object store \<open>B\<close>; once with the remote
  client missing, once with a query that returns an error.
\<close>

theorem loadSettings_prefers_object_store_witness:
  "flat_backup example_world = Blob (Some ''A'') (Some ''https://api.x.ai'') (Some ''auto'')
   \<and> index_get_user_id (settings_store (idb example_world)) ''user-1''
       = Some \<lparr> ls_id = ''id-1'', ls_user_id = ''user-1'', ls_api_key = ''B'',
                ls_base_url = ''https://api.x.ai'', ls_model = ''grok-2-latest'',
                ls_created_at = ''2024-01-01T00:00:00.000Z'',
                ls_updated_at = ''2024-01-01T00:00:00.000Z'' \<rparr>
   \<and> apiKey (settings_state
         (useSettings_loadSettings (example_env\<lparr>supabase_configured := False\<rparr>) example_world)) = ''B''
   \<and> apiKey (settings_state
         (useSettings_loadSettings (example_env\<lparr>select_outcome := SelectError\<rparr>) example_world)) = ''B''"
proof -
  let ?r = "\<lparr> ls_id = ''id-1'', ls_user_id = ''user-1'', ls_api_key = ''B'',
                ls_base_url = ''https://api.x.ai'', ls_model = ''grok-2-latest'',
                ls_created_at = ''2024-01-01T00:00:00.000Z'',
                ls_updated_at = ''2024-01-01T00:00:00.000Z'' \<rparr>"
  have flat: "flat_backup example_world = Blob (Some ''A'') (Some ''https://api.x.ai'') (Some ''auto'')"
    by (simp add: example_defs)
  have row: "index_get_user_id (settings_store (idb example_world)) ''user-1'' = Some ?r"
    by (simp add: example_defs index_get_user_id_def)
  have a: "apiKey (settings_state
         (useSettings_loadSettings (example_env\<lparr>supabase_configured := False\<rparr>) example_world)) = ''B''"
    using loadSettings_prefers_object_store
      [of "example_env\<lparr>supabase_configured := False\<rparr>" example_world ?r]
    by (simp add: example_defs index_get_user_id_def getUserId_def)
  have b: "apiKey (settings_state
         (useSettings_loadSettings (example_env\<lparr>select_outcome := SelectError\<rparr>) example_world)) = ''B''"
    using loadSettings_prefers_object_store
      [of "example_env\<lparr>select_outcome := SelectError\<rparr>" example_world ?r]
    by (simp add: example_defs index_get_user_id_def getUserId_def)
  show ?thesis using flat row a b by simp
qed


section \<open>Loading the settings when the remote table has a row\<close>

lemma loadLocalSettings_trace:
  "\<exists>evs. trace (snd (loadLocalSettings w)) = trace w @ evs"
  by (simp add: loadLocalSettings_def console_error_def emit_def split: flat_blob.split)

lemma loadLocalSettings_flat:
  "flat_backup (snd (loadLocalSettings w)) = flat_backup w"
  by (simp add: loadLocalSettings_def console_error_def emit_def split: flat_blob.split)

lemma loadLocalDbSettings_frame:
  "idb (snd (loadLocalDbSettings env c userId w)) = idb w"
  "user_id_item (snd (loadLocalDbSettings env c userId w)) = user_id_item w"
  "flat_backup (snd (loadLocalDbSettings env c userId w)) = flat_backup w"
  "\<exists>evs. trace (snd (loadLocalDbSettings env c userId w)) = trace w @ evs"
  by (simp_all add: loadLocalDbSettings_def console_error_def emit_def Let_def
      split: sum.split option.split)

lemma loadLocalSettings_of_blob:
  "flat_backup w = Blob (Some k) (Some u) (Some m) \<Longrightarrow>
     fst (loadLocalSettings w) = \<lparr> apiKey = k, baseUrl = u, model = m \<rparr>"
  by (simp add: loadLocalSettings_def)

lemma fields_of_row [simp]:
  "fields_of \<lparr> apiKey = api_key d, baseUrl = base_url d, model = model_f d \<rparr> = d"
  by (simp add: fields_of_def)


text \<open>
  Claim C3. When the remote table is configured and the query returns a row, the
  settings in memory after \<open>loadSettings\<close> are the row's values and loading has ended.
  After the query the operation sets them in memory, writes them to the flat backup and,
  where IndexedDB is supported, calls \<open>localDb.saveSettings\<close> with them, in this order.
  When the write of the flat backup succeeds, reading the flat backup afterwards gives
  the row's values; when IndexedDB is supported, the requests of the save succeed and the
  settings store satisfies the invariant of IndexedDB, every successful
  \<open>localDb.loadSettings\<close> for the user afterwards gives the row's values.
\<close>

theorem loadSettings_adopts_remote_row:
  assumes conf: "supabase_configured env" and sel: "select_outcome env = SelectRow d"
  shows "settings_state (useSettings_loadSettings env w)
           = \<lparr> apiKey = api_key d, baseUrl = base_url d, model = model_f d \<rparr>
       \<and> settings_isLoading (useSettings_loadSettings env w) = False
       \<and> (\<exists>pre. effects w (useSettings_loadSettings env w) =
             pre @ [RemoteSelect (fst (getUserId env w)),
                    SetSettings \<lparr> apiKey = api_key d, baseUrl = base_url d, model = model_f d \<rparr>,
                    FlatWrite \<lparr> apiKey = api_key d, baseUrl = base_url d, model = model_f d \<rparr>]
                 @ (if idb_supported env then [DbSaveSettings (fst (getUserId env w)) d] else []))
       \<and> (flat_write_ok env \<longrightarrow>
             fst (loadLocalSettings (useSettings_loadSettings env w))
               = \<lparr> apiKey = api_key d, baseUrl = base_url d, model = model_f d \<rparr>)
       \<and> (idb_supported env \<and> open_ok (call2 env) \<and> req_ok (call2 env) \<and> req2_ok (call2 env)
            \<and> settings_wf (settings_store (idb w)) \<longrightarrow>
             (\<forall>c. open_ok c \<and> req_ok c \<longrightarrow>
                (\<exists>r. localDb_loadSettings c (idb (useSettings_loadSettings env w)) (fst (getUserId env w))
                        = Inr (Some r)
                     \<and> ls_api_key r = api_key d \<and> ls_base_url r = base_url d
                     \<and> ls_model r = model_f d)))"
proof -
  let ?u = "current_user env w"
  let ?S = "\<lparr> apiKey = api_key d, baseUrl = base_url d, model = model_f d \<rparr>"
  let ?w1 = "w\<lparr>user_id_item := Some ?u\<rparr>"
  have uid: "fst (getUserId env w) = ?u" by (simp add: getUserId_eq)
  obtain ls w2 where l: "loadLocalSettings ?w1 = (ls, w2)" by (cases "loadLocalSettings ?w1")
  obtain lds w3 where ld: "loadLocalDbSettings env (call1 env) ?u w2 = (lds, w3)"
    by (cases "loadLocalDbSettings env (call1 env) ?u w2")
  have fr2: "idb w2 = idb w"
    using loadLocalSettings_frame(1) [of ?w1] l by simp
  obtain e2 where t2: "trace w2 = trace w @ e2"
    using loadLocalSettings_trace [of ?w1] l by auto
  have fr3: "idb w3 = idb w"
    using loadLocalDbSettings_frame(1) [of env "call1 env" ?u w2] ld fr2 by simp
  obtain e3 where t3: "trace w3 = trace w @ e2 @ e3"
    using loadLocalDbSettings_frame(4) [of env "call1 env" ?u w2] ld t2 by auto
  let ?w4 = "if apiKey ls \<noteq> [] then setSettings ls w3 else w3"
  let ?e4 = "e2 @ e3 @ (if apiKey ls \<noteq> [] then [SetSettings ls] else [])"
  have fr4: "idb ?w4 = idb w" "trace ?w4 = trace w @ ?e4"
    using fr3 t3 by (simp_all add: setSettings_fields)
  let ?w5 = "setSettings ?S (emit (RemoteSelect ?u) ?w4)"
  let ?w6 = "saveLocalSettings env ?S ?w5"
  let ?w7 = "saveLocalDbSettings env (call2 env) ?u ?S ?w6"
  have unfold: "useSettings_loadSettings env w = ?w7\<lparr>settings_isLoading := False\<rparr>"
    using conf sel by (simp add: useSettings_loadSettings_def getUserId_eq l ld Let_def)
  have st: "settings_state ?w7 = ?S"
    by (simp add: saveLocalDbSettings_fields saveLocalSettings_fields setSettings_fields)
  have fl: "flat_write_ok env \<longrightarrow>
              flat_backup ?w7 = Blob (Some (api_key d)) (Some (base_url d)) (Some (model_f d))"
    by (simp add: saveLocalDbSettings_fields saveLocalSettings_fields)
  have idb6: "idb ?w6 = idb w"
    using fr4(1) by (simp add: saveLocalSettings_fields setSettings_fields emit_def)
  let ?flatlog = "if flat_write_ok env then [] else [ConsoleError ''Failed to save settings to localStorage:'']"
  let ?dbpart = "if idb_supported env
        then DbSaveSettings ?u d #
               (case localDb_saveSettings (call2 env) (idb w) ?u d of
                  Inr db' \<Rightarrow> []
                | Inl e \<Rightarrow> [ConsoleError ''Failed to save settings to IndexedDB:''])
        else []"
  have t7: "trace ?w7 = trace w @ (?e4 @ [RemoteSelect ?u, SetSettings ?S] @ FlatWrite ?S # ?flatlog @ ?dbpart)"
    using fr4(2) idb6
    by (simp add: saveLocalDbSettings_fields saveLocalSettings_fields setSettings_fields emit_def)
  have t7': "trace (useSettings_loadSettings env w) =
               trace w @ (?e4 @ [RemoteSelect ?u, SetSettings ?S] @ FlatWrite ?S # ?flatlog @ ?dbpart)"
    unfolding unfold using t7 by simp
  have eff: "effects w (useSettings_loadSettings env w) =
               filter (\<lambda>e. \<not> is_console e) ?e4 @ [RemoteSelect ?u, SetSettings ?S, FlatWrite ?S]
                 @ (if idb_supported env then [DbSaveSettings ?u d] else [])"
    unfolding effects_of_trace [OF t7'] by (simp split: sum.split)
  have effex: "\<exists>pre. effects w (useSettings_loadSettings env w) =
             pre @ [RemoteSelect ?u, SetSettings ?S, FlatWrite ?S]
                 @ (if idb_supported env then [DbSaveSettings ?u d] else [])"
    using eff by blast
  have flat: "flat_write_ok env \<longrightarrow> fst (loadLocalSettings (useSettings_loadSettings env w)) = ?S"
  proof
    assume "flat_write_ok env"
    then have "flat_backup (useSettings_loadSettings env w)
                 = Blob (Some (api_key d)) (Some (base_url d)) (Some (model_f d))"
      unfolding unfold using fl by simp
    then show "fst (loadLocalSettings (useSettings_loadSettings env w)) = ?S"
      by (rule loadLocalSettings_of_blob)
  qed
  have store: "idb_supported env \<and> open_ok (call2 env) \<and> req_ok (call2 env) \<and> req2_ok (call2 env)
            \<and> settings_wf (settings_store (idb w)) \<longrightarrow>
             (\<forall>c. open_ok c \<and> req_ok c \<longrightarrow>
                (\<exists>r. localDb_loadSettings c (idb (useSettings_loadSettings env w)) ?u = Inr (Some r)
                     \<and> ls_api_key r = api_key d \<and> ls_base_url r = base_url d
                     \<and> ls_model r = model_f d))"
  proof (intro impI allI)
    fix c :: idb_call
    assume a: "idb_supported env \<and> open_ok (call2 env) \<and> req_ok (call2 env) \<and> req2_ok (call2 env)
            \<and> settings_wf (settings_store (idb w))"
      and c: "open_ok c \<and> req_ok c"
    obtain db' r where sv: "localDb_saveSettings (call2 env) (idb w) ?u d = Inr db'"
      and ix: "index_get_user_id (settings_store db') ?u = Some r"
      and v: "ls_api_key r = api_key d" "ls_base_url r = base_url d" "ls_model r = model_f d"
      using saveSettings_ok [of "idb w" "call2 env" ?u d] a by blast
    have "idb ?w7 = db'"
      using a sv idb6 by (simp add: saveLocalDbSettings_fields)
    then have "idb (useSettings_loadSettings env w) = db'"
      unfolding unfold by simp
    then have "localDb_loadSettings c (idb (useSettings_loadSettings env w)) ?u = Inr (Some r)"
      using c ix by (simp add: localDb_loadSettings_def)
    then show "\<exists>r. localDb_loadSettings c (idb (useSettings_loadSettings env w)) ?u = Inr (Some r)
                     \<and> ls_api_key r = api_key d \<and> ls_base_url r = base_url d
                     \<and> ls_model r = model_f d"
      using v by blast
  qed
  have s1: "settings_state (useSettings_loadSettings env w) = ?S"
    unfolding unfold using st by simp
  have s2: "settings_isLoading (useSettings_loadSettings env w) = False"
    unfolding unfold by simp
  show ?thesis
    unfolding uid using s1 s2 effex flat store by (intro conjI)
qed


text \<open>An instance: the remote row holds the API key \<open>C\<close>.\<close>

theorem loadSettings_adopts_remote_row_witness:
  "settings_state
     (useSettings_loadSettings
        (example_env\<lparr>select_outcome :=
           SelectRow \<lparr> api_key = ''C'', base_url = ''https://example.org'', model_f = ''grok-3'' \<rparr>\<rparr>)
        example_world)
     = \<lparr> apiKey = ''C'', baseUrl = ''https://example.org'', model = ''grok-3'' \<rparr>
   \<and> fst (loadLocalSettings
        (useSettings_loadSettings
           (example_env\<lparr>select_outcome :=
              SelectRow \<lparr> api_key = ''C'', base_url = ''https://example.org'', model_f = ''grok-3'' \<rparr>\<rparr>)
           example_world))
     = \<lparr> apiKey = ''C'', baseUrl = ''https://example.org'', model = ''grok-3'' \<rparr>
   \<and> (\<exists>r. localDb_loadSettings example_call
        (idb (useSettings_loadSettings
           (example_env\<lparr>select_outcome :=
              SelectRow \<lparr> api_key = ''C'', base_url = ''https://example.org'', model_f = ''grok-3'' \<rparr>\<rparr>)
           example_world)) ''user-1'' = Inr (Some r)
        \<and> ls_api_key r = ''C'' \<and> ls_base_url r = ''https://example.org'' \<and> ls_model r = ''grok-3'')"
proof -
  let ?env = "example_env\<lparr>select_outcome :=
           SelectRow \<lparr> api_key = ''C'', base_url = ''https://example.org'', model_f = ''grok-3'' \<rparr>\<rparr>"
  have conf: "supabase_configured ?env" by (simp add: example_defs)
  have sel: "select_outcome ?env =
               SelectRow \<lparr> api_key = ''C'', base_url = ''https://example.org'', model_f = ''grok-3'' \<rparr>"
    by simp
  have u: "fst (getUserId ?env example_world) = ''user-1''"
    by (simp add: example_defs getUserId_def)
  have pre: "idb_supported ?env \<and> open_ok (call2 ?env) \<and> req_ok (call2 ?env) \<and> req2_ok (call2 ?env)
            \<and> settings_wf (settings_store (idb example_world))"
    by (simp add: example_defs settings_wf_def)
  have fw: "flat_write_ok ?env" by (simp add: example_defs)
  have c: "open_ok example_call \<and> req_ok example_call" by (simp add: example_defs)
  show ?thesis
    using loadSettings_adopts_remote_row [OF conf sel, of example_world] pre fw c unfolding u
    by simp
qed


section \<open>Saving the settings\<close>








text \<open>
  Where \<open>LocalDatabase.isSupported()\<close> is false, \<open>saveLocalDbSettings\<close> returns before it
  calls \<open>localDb.saveSettings\<close>; the other steps are the same and the object store is
  left as it was.
\<close>

lemma updateSettings_without_indexedDB:
  "effects example_world
     (snd (updateSettings (example_env\<lparr>idb_supported := False\<rparr>)
             \<lparr> apiKey = ''K'', baseUrl = ''https://api.x.ai'', model = ''grok-2'' \<rparr> example_world))
   = [FlatWrite \<lparr> apiKey = ''K'', baseUrl = ''https://api.x.ai'', model = ''grok-2'' \<rparr>,
      SetSettings \<lparr> apiKey = ''K'', baseUrl = ''https://api.x.ai'', model = ''grok-2'' \<rparr>,
      RemoteUpsert ''user-1'' \<lparr> api_key = ''K'', base_url = ''https://api.x.ai'', model_f = ''grok-2'' \<rparr>]
   \<and> idb (snd (updateSettings (example_env\<lparr>idb_supported := False\<rparr>)
             \<lparr> apiKey = ''K'', baseUrl = ''https://api.x.ai'', model = ''grok-2'' \<rparr> example_world))
     = idb example_world"
  by (simp add: example_defs updateSettings_def getUserId_def saveLocalSettings_def
      saveLocalDbSettings_def setSettings_def updateSettings_try_def effects_def new_events_def
      emit_def console_error_def fields_of_def Let_def)


section \<open>Counting the messages\<close>

lemma localDb_getMessageCount_rejects:
  "\<not> open_ok c \<or> \<not> req_ok c \<Longrightarrow> localDb_getMessageCount c db userId = Inl (if open_ok c then RequestError else OpenError)"
  by (auto simp: localDb_getMessageCount_def)

text \<open>
  Claim C6, as amended. \<open>getMessageCount\<close> of \<open>useMessages\<close> always resolves with a
  number. When IndexedDB is not supported, or the open request or the count request
  fails, that number is the length of the message list in memory, and in the last two
  cases the failure is logged. When the requests succeed it is the number of stored rows
  of the user. \<open>LocalDatabase.getMessageCount\<close> itself rejects with the error of the
  failed request.
\<close>

theorem getMessageCount_falls_back_to_memory:
  "(\<exists>n. fst (useMessages_getMessageCount env w) = Inr n)
   \<and> (\<not> idb_supported env \<or> \<not> open_ok (call1 env) \<or> \<not> req_ok (call1 env) \<longrightarrow>
        fst (useMessages_getMessageCount env w) = Inr (length (messages_state w)))
   \<and> (idb_supported env \<and> (\<not> open_ok (call1 env) \<or> \<not> req_ok (call1 env)) \<longrightarrow>
        new_events w (snd (useMessages_getMessageCount env w)) =
          [DbGetMessageCount (fst (getUserId env w)),
           ConsoleError ''Failed to get message count from local database:''])
   \<and> (idb_supported env \<and> open_ok (call1 env) \<and> req_ok (call1 env) \<longrightarrow>
        fst (useMessages_getMessageCount env w) =
          Inr (length (filter (\<lambda>r. lm_user_id r = fst (getUserId env w)) (messages_store (idb w)))))
   \<and> (\<not> open_ok c \<or> \<not> req_ok c \<longrightarrow>
        localDb_getMessageCount c db userId = Inl (if open_ok c then RequestError else OpenError))"
proof (intro conjI)
  show "\<exists>n. fst (useMessages_getMessageCount env w) = Inr n"
    by (simp add: useMessages_getMessageCount_def getUserId_eq Let_def split: sum.split)
  show "\<not> idb_supported env \<or> \<not> open_ok (call1 env) \<or> \<not> req_ok (call1 env) \<longrightarrow>
        fst (useMessages_getMessageCount env w) = Inr (length (messages_state w))"
    by (auto simp: useMessages_getMessageCount_def getUserId_eq Let_def localDb_getMessageCount_def split: sum.split)
  show "idb_supported env \<and> (\<not> open_ok (call1 env) \<or> \<not> req_ok (call1 env)) \<longrightarrow>
        new_events w (snd (useMessages_getMessageCount env w)) =
          [DbGetMessageCount (fst (getUserId env w)),
           ConsoleError ''Failed to get message count from local database:'']"
    by (auto simp: useMessages_getMessageCount_def getUserId_eq Let_def localDb_getMessageCount_def
        new_events_def emit_def console_error_def)
  show "idb_supported env \<and> open_ok (call1 env) \<and> req_ok (call1 env) \<longrightarrow>
        fst (useMessages_getMessageCount env w) =
          Inr (length (filter (\<lambda>r. lm_user_id r = fst (getUserId env w)) (messages_store (idb w))))"
    by (auto simp: useMessages_getMessageCount_def getUserId_eq Let_def localDb_getMessageCount_def emit_def)
  show "\<not> open_ok c \<or> \<not> req_ok c \<longrightarrow>
        localDb_getMessageCount c db userId = Inl (if open_ok c then RequestError else OpenError)"
    using localDb_getMessageCount_rejects by blast
qed


text \<open>An instance: the count request fails while one message is in memory.\<close>

theorem getMessageCount_falls_back_to_memory_witness:
  "fst (useMessages_getMessageCount (example_env\<lparr>call1 := example_call\<lparr>req_ok := False\<rparr>\<rparr>) example_world)
     = Inr (length (messages_state example_world))
   \<and> new_events example_world
        (snd (useMessages_getMessageCount (example_env\<lparr>call1 := example_call\<lparr>req_ok := False\<rparr>\<rparr>) example_world))
     = [DbGetMessageCount ''user-1'', ConsoleError ''Failed to get message count from local database:'']
   \<and> localDb_getMessageCount (example_call\<lparr>req_ok := False\<rparr>) (idb example_world) ''user-1''
     = Inl RequestError"
  using getMessageCount_falls_back_to_memory
    [of "example_env\<lparr>call1 := example_call\<lparr>req_ok := False\<rparr>\<rparr>" example_world
        "example_call\<lparr>req_ok := False\<rparr>" "idb example_world" "''user-1''"]
  by (simp add: example_defs getUserId_def)


text \<open>
  The claim as stated does not hold: with one message in memory and a database that
  cannot be opened, the hook returns 1, not 0, and the method of \<open>LocalDatabase\<close>
  rejects.
\<close>

theorem getMessageCount_not_zero_counterexample:
  "fst (useMessages_getMessageCount (example_env\<lparr>call1 := example_call\<lparr>open_ok := False\<rparr>\<rparr>) example_world)
     = Inr 1
   \<and> fst (useMessages_getMessageCount (example_env\<lparr>call1 := example_call\<lparr>open_ok := False\<rparr>\<rparr>) example_world)
     \<noteq> Inr 0
   \<and> localDb_getMessageCount (example_call\<lparr>open_ok := False\<rparr>) (idb example_world) ''user-1''
     = Inl OpenError"
  by (simp add: example_defs useMessages_getMessageCount_def getUserId_def localDb_getMessageCount_def
      emit_def console_error_def Let_def)


section \<open>Clearing both stores\<close>

lemma completed_on_event:
  "completed (on_event p e) = completed p + (if is_success e then 1 else 0)"
  by (cases e) (simp_all add: checkComplete_def Let_def)

lemma completed_foldl:
  "completed (foldl on_event p evs) = completed p + length (filter is_success evs)"
  by (induction evs arbitrary: p) (simp_all add: completed_on_event)










section \<open>Adding a message\<close>

text \<open>
  Claim C9. \<open>addMessage\<close> always resolves, and the message list in memory afterwards is
  the one before with the message appended. The message is appended before
  \<open>localDb.saveMessage\<close> is called. \<open>saveMessage\<close> rejects when the database cannot be
  opened or the write request fails; \<open>addMessage\<close> then logs the failure, after the two
  steps above, and leaves both the database and the appended message as they are.
\<close>

theorem addMessage_keeps_message:
  "fst (addMessage env c m w) = Inr ()
   \<and> messages_state (snd (addMessage env c m w)) = messages_state w @ [m]
   \<and> effects w (snd (addMessage env c m w)) =
       AppendMessage m # (if idb_supported env then [DbSaveMessage (fst (getUserId env w)) m] else [])
   \<and> (\<not> open_ok c \<or> \<not> req_ok c \<longrightarrow>
        localDb_saveMessage c (idb w) (fst (getUserId env w)) m
          = Inl (if open_ok c then RequestError else OpenError))
   \<and> (idb_supported env \<and> (\<not> open_ok c \<or> \<not> req_ok c) \<longrightarrow>
        new_events w (snd (addMessage env c m w)) =
          [AppendMessage m, DbSaveMessage (fst (getUserId env w)) m,
           ConsoleError ''Failed to save message to local database:'']
        \<and> idb (snd (addMessage env c m w)) = idb w)"
  by (auto simp: addMessage_def getUserId_eq Let_def localDb_saveMessage_def new_events_def effects_def
        emit_def console_error_def split: sum.split)


text \<open>An instance: the write request fails.\<close>

theorem addMessage_keeps_message_witness:
  "fst (addMessage example_env (example_call\<lparr>req_ok := False\<rparr>)
          \<lparr> role = User, content = ''again'', timestamp = 1717200000000, attachments = None \<rparr>
          example_world) = Inr ()
   \<and> messages_state
        (snd (addMessage example_env (example_call\<lparr>req_ok := False\<rparr>)
                \<lparr> role = User, content = ''again'', timestamp = 1717200000000, attachments = None \<rparr>
                example_world))
      = [\<lparr> role = User, content = ''hi'', timestamp = 1700000000000, attachments = None \<rparr>,
         \<lparr> role = User, content = ''again'', timestamp = 1717200000000, attachments = None \<rparr>]
   \<and> new_events example_world
        (snd (addMessage example_env (example_call\<lparr>req_ok := False\<rparr>)
                \<lparr> role = User, content = ''again'', timestamp = 1717200000000, attachments = None \<rparr>
                example_world))
      = [AppendMessage \<lparr> role = User, content = ''again'', timestamp = 1717200000000, attachments = None \<rparr>,
         DbSaveMessage ''user-1''
           \<lparr> role = User, content = ''again'', timestamp = 1717200000000, attachments = None \<rparr>,
         ConsoleError ''Failed to save message to local database:'']
   \<and> idb (snd (addMessage example_env (example_call\<lparr>req_ok := False\<rparr>)
                \<lparr> role = User, content = ''again'', timestamp = 1717200000000, attachments = None \<rparr>
                example_world))
      = idb example_world"
  using addMessage_keeps_message
    [of example_env "example_call\<lparr>req_ok := False\<rparr>"
        "\<lparr> role = User, content = ''again'', timestamp = 1717200000000, attachments = None \<rparr>"
        example_world]
  by (simp add: example_defs getUserId_def)


section \<open>Sending a message\<close>

lemma addMessage_fields:
  "fst (addMessage env c m w) = Inr ()"
  "messages_state (snd (addMessage env c m w)) = messages_state w @ [m]"
  "error_state (snd (addMessage env c m w)) = error_state w"
  "settings_state (snd (addMessage env c m w)) = settings_state w"
  "trace (snd (addMessage env c m w)) =
     trace w @ AppendMessage m #
       (if idb_supported env
        then DbSaveMessage (current_user env w) m #
               (case localDb_saveMessage c (idb w) (current_user env w) m of
                  Inr db' \<Rightarrow> []
                | Inl e \<Rightarrow> [ConsoleError ''Failed to save message to local database:''])
        else [])"
  "messages_store (idb (snd (addMessage env c m w))) =
     (if idb_supported env
      then (case localDb_saveMessage c (idb w) (current_user env w) m of
              Inr db' \<Rightarrow> messages_store (idb w) @ [messageData c (current_user env w) m]
            | Inl e \<Rightarrow> messages_store (idb w))
      else messages_store (idb w))"
  by (auto simp: addMessage_def getUserId_eq Let_def emit_def console_error_def
      split: sum.split dest: saveMessage_appends)

lemma setters_fields:
  "messages_state (setError e w) = messages_state w"
  "messages_state (setIsLoading b w) = messages_state w"
  "messages_state (console_error l w) = messages_state w"
  "messages_state (emit ev w) = messages_state w"
  "idb (setError e w) = idb w"
  "idb (setIsLoading b w) = idb w"
  "idb (console_error l w) = idb w"
  "idb (emit ev w) = idb w"
  "error_state (setError e w) = e"
  "error_state (setIsLoading b w) = error_state w"
  "error_state (console_error l w) = error_state w"
  "error_state (emit ev w) = error_state w"
  "trace (setError e w) = trace w @ [SetError e]"
  "trace (setIsLoading b w) = trace w @ [SetIsLoading b]"
  "trace (console_error l w) = trace w @ [ConsoleError l]"
  "trace (emit ev w) = trace w @ [ev]"
  by (simp_all add: setError_def setIsLoading_def console_error_def emit_def)

lemma errorMsg_cases:
  "(\<forall>m. error_message ed = Some m \<and> m \<noteq> [] \<longrightarrow> errorMsg ed r = m)
   \<and> (\<forall>m. (error_message ed = None \<or> error_message ed = Some [])
          \<and> message_prop ed = Some m \<and> m \<noteq> [] \<longrightarrow> errorMsg ed r = m)
   \<and> ((error_message ed = None \<or> error_message ed = Some [])
          \<and> (message_prop ed = None \<or> message_prop ed = Some []) \<longrightarrow> errorMsg ed r = statusText r)"
  by (auto simp: errorMsg_def or_else_def split: option.split)

lemma sendMessage_unfold:
  assumes "apiKey (settings_state w) \<noteq> []"
  shows "sendMessage env text atts w =
     (let userMessage = \<lparr> role = User, content = text, timestamp = now_user env, attachments = atts \<rparr>;
          w1 = snd (addMessage env (call1 env) userMessage w);
          w2 = setError None (setIsLoading True w1);
          t = sendMessage_try env w2;
          w4 = (case fst t of
                  Inl err \<Rightarrow> setError (Some (error_text err)) (console_error ''Request failed:'' (snd t))
                | Inr u \<Rightarrow> snd t)
      in (Inr (), setIsLoading False w4))"
  using assms addMessage_fields(1) [of env "call1 env" _ w]
  by (simp add: sendMessage_def Let_def case_prod_beta split: sum.split)

lemma filter_shown_console [simp]:
  "\<not> is_shown_error (ConsoleError l)" "\<not> adds_assistant (ConsoleError l)"
  by simp_all

text \<open>
  What \<open>sendMessage\<close> does when the \<open>try\<close> block throws after \<open>fetch\<close>, with or
  without the call of \<open>console.error\<close> for a response that is not ok: the error's text
  is shown, it is the only error shown, and only the user's message has been added.
\<close>

lemma sendMessage_thrown:
  assumes key: "apiKey (settings_state w) \<noteq> []"
    and thrown: "sendMessage_try env
                   (setError None (setIsLoading True
                      (snd (addMessage env (call1 env)
                         \<lparr> role = User, content = text, timestamp = now_user env, attachments = atts \<rparr> w))))
                 = (Inl err,
                    (if logged then console_error ''API Error:'' else (\<lambda>x. x))
                      (emit Fetch (setError None (setIsLoading True
                         (snd (addMessage env (call1 env)
                            \<lparr> role = User, content = text, timestamp = now_user env, attachments = atts \<rparr> w))))))"
  shows "fst (sendMessage env text atts w) = Inr ()
       \<and> error_state (snd (sendMessage env text atts w)) = Some (error_text err)
       \<and> filter is_shown_error (new_events w (snd (sendMessage env text atts w)))
           = [SetError (Some (error_text err))]
       \<and> messages_state (snd (sendMessage env text atts w))
           = messages_state w
             @ [\<lparr> role = User, content = text, timestamp = now_user env, attachments = atts \<rparr>]
       \<and> filter adds_assistant (new_events w (snd (sendMessage env text atts w))) = []
       \<and> filter (\<lambda>x. lm_role x = Assistant) (messages_store (idb (snd (sendMessage env text atts w))))
           = filter (\<lambda>x. lm_role x = Assistant) (messages_store (idb w))"
proof -
  let ?um = "\<lparr> role = User, content = text, timestamp = now_user env, attachments = atts \<rparr>"
  let ?w1 = "snd (addMessage env (call1 env) ?um w)"
  let ?w2 = "setError None (setIsLoading True ?w1)"
  let ?w3 = "(if logged then console_error ''API Error:'' else (\<lambda>x. x)) (emit Fetch ?w2)"
  let ?l = "if logged then [ConsoleError ''API Error:''] else []"
  let ?e1 = "AppendMessage ?um #
       (if idb_supported env
        then DbSaveMessage (current_user env w) ?um #
               (case localDb_saveMessage (call1 env) (idb w) (current_user env w) ?um of
                  Inr db' \<Rightarrow> []
                | Inl e \<Rightarrow> [ConsoleError ''Failed to save message to local database:''])
        else [])"
  have w3: "trace ?w3 = trace (emit Fetch ?w2) @ ?l"
    "messages_state ?w3 = messages_state ?w2" "idb ?w3 = idb ?w2"
    by (simp_all add: setters_fields)
  have res: "sendMessage env text atts w =
      (Inr (), setIsLoading False (setError (Some (error_text err)) (console_error ''Request failed:'' ?w3)))"
    by (simp add: sendMessage_unfold [OF key] thrown Let_def)
  let ?w' = "snd (sendMessage env text atts w)"
  let ?rest = "[SetIsLoading True, SetError None, Fetch] @ ?l @
                [ConsoleError ''Request failed:'', SetError (Some (error_text err)), SetIsLoading False]"
  have tr: "trace ?w' = trace w @ (?e1 @ ?rest)"
    unfolding res by (simp add: setters_fields addMessage_fields w3(1))
  have ne: "new_events w ?w' = ?e1 @ ?rest"
    by (rule new_events_of_trace [OF tr])
  have shown: "filter is_shown_error (new_events w ?w') = [SetError (Some (error_text err))]"
    unfolding ne by (simp split: sum.split)
  have noassist: "filter adds_assistant (new_events w ?w') = []"
    unfolding ne by (simp split: sum.split)
  have err: "error_state ?w' = Some (error_text err)"
    unfolding res by (simp add: setters_fields)
  have ms: "messages_state ?w' = messages_state w @ [?um]"
    unfolding res by (simp add: setters_fields addMessage_fields w3(2))
  have st: "filter (\<lambda>x. lm_role x = Assistant) (messages_store (idb ?w'))
           = filter (\<lambda>x. lm_role x = Assistant) (messages_store (idb w))"
    unfolding res
    by (simp add: setters_fields addMessage_fields w3(3) messageData_def split: sum.split)
  have r1: "fst (sendMessage env text atts w) = Inr ()"
    unfolding res by simp
  show ?thesis
    using r1 err shown ms noassist st by (intro conjI)
qed

text \<open>
  A response that is not ok and whose body is not JSON, or is JSON other than \<open>null\<close>:
  the error shown is the status, the text \<open>Error:\<close> and the error message, which is
  \<open>error.message\<close> if that is a non-empty string, else \<open>message\<close> if that is one, else the
  status text. It is the only error shown, and no assistant message is appended or stored.
\<close>

lemma sendMessage_error_response:
  assumes key: "apiKey (settings_state w) \<noteq> []"
    and f: "fetch_outcome env = FetchResponse r"
    and nok: "\<not> response_ok r"
    and ed: "errorData_of r = Some ed"
  shows "fst (sendMessage env text atts w) = Inr ()
       \<and> error_state (snd (sendMessage env text atts w))
           = Some (string_of_nat (status r) @ '' Error: '' @ errorMsg ed r)
       \<and> filter is_shown_error (new_events w (snd (sendMessage env text atts w)))
           = [SetError (Some (string_of_nat (status r) @ '' Error: '' @ errorMsg ed r))]
       \<and> sublist (errorMsg ed r) (string_of_nat (status r) @ '' Error: '' @ errorMsg ed r)
       \<and> messages_state (snd (sendMessage env text atts w))
           = messages_state w
             @ [\<lparr> role = User, content = text, timestamp = now_user env, attachments = atts \<rparr>]
       \<and> filter adds_assistant (new_events w (snd (sendMessage env text atts w))) = []
       \<and> filter (\<lambda>x. lm_role x = Assistant) (messages_store (idb (snd (sendMessage env text atts w))))
           = filter (\<lambda>x. lm_role x = Assistant) (messages_store (idb w))"
proof -
  let ?msg = "string_of_nat (status r) @ '' Error: '' @ errorMsg ed r"
  have thrown: "sendMessage_try env
                   (setError None (setIsLoading True
                      (snd (addMessage env (call1 env)
                         \<lparr> role = User, content = text, timestamp = now_user env, attachments = atts \<rparr> w))))
                 = (Inl (Error ?msg),
                    (if True then console_error ''API Error:'' else (\<lambda>x. x))
                      (emit Fetch (setError None (setIsLoading True
                         (snd (addMessage env (call1 env)
                            \<lparr> role = User, content = text, timestamp = now_user env, attachments = atts \<rparr> w))))))"
    using f nok ed by (simp add: sendMessage_try_def Let_def)
  have sub: "sublist (errorMsg ed r) ?msg"
    by (metis append.assoc sublist_append_leftI)
  show ?thesis
    using sendMessage_thrown [OF key thrown] sub by (simp add: error_text_def)
qed

text \<open>An instance: the status 401 with \<open>error.message\<close> in the body.\<close>

lemma sendMessage_error_response_instance:
  "error_state
     (snd (sendMessage
        (example_env\<lparr>fetch_outcome := FetchResponse
           \<lparr> status = 401, statusText = ''Unauthorized'',
             body = Json \<lparr> error_message = Some ''Invalid API key'', message_prop = None,
                           choice_content = None \<rparr> \<rparr>\<rparr>)
        ''hello'' None example_world))
     = Some ''401 Error: Invalid API key''
   \<and> messages_state
       (snd (sendMessage
          (example_env\<lparr>fetch_outcome := FetchResponse
             \<lparr> status = 401, statusText = ''Unauthorized'',
               body = Json \<lparr> error_message = Some ''Invalid API key'', message_prop = None,
                             choice_content = None \<rparr> \<rparr>\<rparr>)
          ''hello'' None example_world))
     = [\<lparr> role = User, content = ''hi'', timestamp = 1700000000000, attachments = None \<rparr>,
        \<lparr> role = User, content = ''hello'', timestamp = 1717200000000, attachments = None \<rparr>]"
proof -
  let ?ed = "\<lparr> error_message = Some ''Invalid API key'', message_prop = None, choice_content = None \<rparr>"
  let ?r = "\<lparr> status = 401, statusText = ''Unauthorized'', body = Json ?ed \<rparr>"
  let ?env = "example_env\<lparr>fetch_outcome := FetchResponse ?r\<rparr>"
  have key: "apiKey (settings_state example_world) \<noteq> []" by (simp add: example_defs)
  have f: "fetch_outcome ?env = FetchResponse ?r" by simp
  have nok: "\<not> response_ok ?r" by (simp add: response_ok_def)
  have ed: "errorData_of ?r = Some ?ed" by (simp add: errorData_of_def)
  have msg: "errorMsg ?ed ?r = ''Invalid API key''" by (simp add: errorMsg_def or_else_def)
  have st: "string_of_nat 401 = ''401''" by (simp add: string_of_nat.simps digit_char_def)
  have ms: "messages_state example_world
              = [\<lparr> role = User, content = ''hi'', timestamp = 1700000000000, attachments = None \<rparr>]"
    "now_user example_env = 1717200000000"
    by (simp_all add: example_defs)
  show ?thesis
    using sendMessage_error_response [OF key f nok ed, of "''hello''" None]
    by (simp add: msg st ms)
qed

text \<open>
  A response that is not ok and whose body is the JSON value \<open>null\<close>: the error shown is
  the message of the \<open>TypeError\<close>.
\<close>

lemma sendMessage_error_response_null:
  assumes key: "apiKey (settings_state w) \<noteq> []"
    and f: "fetch_outcome env = FetchResponse r"
    and nok: "\<not> response_ok r"
    and null: "body r = JsonNull"
  shows "fst (sendMessage env text atts w) = Inr ()
       \<and> error_state (snd (sendMessage env text atts w)) = Some (null_read_message env)
       \<and> filter is_shown_error (new_events w (snd (sendMessage env text atts w)))
           = [SetError (Some (null_read_message env))]
       \<and> messages_state (snd (sendMessage env text atts w))
           = messages_state w
             @ [\<lparr> role = User, content = text, timestamp = now_user env, attachments = atts \<rparr>]
       \<and> filter adds_assistant (new_events w (snd (sendMessage env text atts w))) = []"
proof -
  have thrown: "sendMessage_try env
                   (setError None (setIsLoading True
                      (snd (addMessage env (call1 env)
                         \<lparr> role = User, content = text, timestamp = now_user env, attachments = atts \<rparr> w))))
                 = (Inl (TypeError (null_read_message env)),
                    (if True then console_error ''API Error:'' else (\<lambda>x. x))
                      (emit Fetch (setError None (setIsLoading True
                         (snd (addMessage env (call1 env)
                            \<lparr> role = User, content = text, timestamp = now_user env, attachments = atts \<rparr> w))))))"
    using f nok null by (simp add: sendMessage_try_def errorData_of_def Let_def)
  show ?thesis
    using sendMessage_thrown [OF key thrown] by (simp add: error_text_def)
qed

text \<open>
  Claim C8 fails on the code for an error response whose body is the JSON value \<open>null\<close>.
  With the status 500, the status text \<open>Internal Server Error\<close> and the body \<open>null\<close>,
  \<open>response.json()\<close> resolves, so \<open>errorData\<close> is \<open>null\<close> and not the empty object;
  reading \<open>errorData.error\<close> throws, and the error shown is the message of that
  \<open>TypeError\<close>. It does not contain the status text, which is what the claim requires
  where the body has neither \<open>error.message\<close> nor \<open>message\<close>.
\<close>

theorem sendMessage_null_error_body:
  "error_state
     (snd (sendMessage
        (example_env\<lparr>fetch_outcome := FetchResponse
           \<lparr> status = 500, statusText = ''Internal Server Error'', body = JsonNull \<rparr>\<rparr>)
        ''hello'' None example_world))
     = Some ''Cannot read properties of null (reading 'error')''
   \<and> \<not> sublist ''Internal Server Error'' ''Cannot read properties of null (reading 'error')''
   \<and> \<not> sublist ''500'' ''Cannot read properties of null (reading 'error')''"
proof -
  let ?r = "\<lparr> status = 500, statusText = ''Internal Server Error'', body = JsonNull \<rparr>"
  let ?env = "example_env\<lparr>fetch_outcome := FetchResponse ?r\<rparr>"
  have key: "apiKey (settings_state example_world) \<noteq> []" by (simp add: example_defs)
  have f: "fetch_outcome ?env = FetchResponse ?r" by simp
  have nok: "\<not> response_ok ?r" by (simp add: response_ok_def)
  have null: "body ?r = JsonNull" by simp
  have m: "null_read_message example_env = ''Cannot read properties of null (reading 'error')''"
    by (simp add: example_defs)
  have a: "error_state (snd (sendMessage ?env ''hello'' None example_world))
             = Some ''Cannot read properties of null (reading 'error')''"
    using sendMessage_error_response_null [OF key f nok null, of "''hello''" None] by (simp add: m)
  have b: "\<not> sublist ''Internal Server Error'' ''Cannot read properties of null (reading 'error')''"
    by (simp add: sublist_Cons_right)
  have c: "\<not> sublist ''500'' ''Cannot read properties of null (reading 'error')''"
    by (simp add: sublist_Cons_right)
  show ?thesis using a b c by simp
qed

text \<open>
  A response with a status in 200 to 299 whose \<open>choices[0].message.content\<close> is absent or
  the empty string. Every assistant message that \<open>sendMessage\<close> appends has the content
  \<open>No response from AI\<close>. For a body that parses to a value other than \<open>null\<close>, the list
  in memory grows by the user's message and this assistant message, and no error is
  shown; for a body that does not parse or is \<open>null\<close>, only the user's message is added
  and an error is shown.
\<close>

lemma sendMessage_empty_content:
  assumes key: "apiKey (settings_state w) \<noteq> []"
    and f: "fetch_outcome env = FetchResponse r"
    and ok: "response_ok r"
    and empty: "\<forall>data. body r = Json data \<longrightarrow> choice_content data = None \<or> choice_content data = Some []"
  shows "fst (sendMessage env text atts w) = Inr ()
       \<and> (\<forall>m. AppendMessage m \<in> set (new_events w (snd (sendMessage env text atts w)))
                \<and> role m = Assistant \<longrightarrow> content m = ''No response from AI'')
       \<and> (\<forall>data. body r = Json data \<longrightarrow>
             messages_state (snd (sendMessage env text atts w))
               = messages_state w
                 @ [\<lparr> role = User, content = text, timestamp = now_user env, attachments = atts \<rparr>,
                    \<lparr> role = Assistant, content = ''No response from AI'',
                      timestamp = now_assistant env, attachments = None \<rparr>]
             \<and> error_state (snd (sendMessage env text atts w)) = None)
       \<and> ((\<forall>data. body r \<noteq> Json data) \<longrightarrow>
             messages_state (snd (sendMessage env text atts w))
               = messages_state w
                 @ [\<lparr> role = User, content = text, timestamp = now_user env, attachments = atts \<rparr>]
             \<and> error_state (snd (sendMessage env text atts w)) \<noteq> None)"
proof -
  let ?um = "\<lparr> role = User, content = text, timestamp = now_user env, attachments = atts \<rparr>"
  let ?am = "\<lparr> role = Assistant, content = ''No response from AI'',
                timestamp = now_assistant env, attachments = None \<rparr>"
  let ?w1 = "snd (addMessage env (call1 env) ?um w)"
  let ?w2 = "setError None (setIsLoading True ?w1)"
  let ?w' = "snd (sendMessage env text atts w)"
  let ?goal_m = "\<forall>m. AppendMessage m \<in> set (new_events w ?w') \<and> role m = Assistant
                   \<longrightarrow> content m = ''No response from AI''"
  have r1: "fst (sendMessage env text atts w) = Inr ()"
    by (simp add: sendMessage_unfold [OF key] Let_def)
  have parsed: "\<forall>data. body r = Json data \<longrightarrow>
             (messages_state ?w' = messages_state w @ [?um, ?am] \<and> error_state ?w' = None) \<and> ?goal_m"
  proof (intro allI impI)
    fix data assume b: "body r = Json data"
    have c: "or_else (choice_content data) ''No response from AI'' = ''No response from AI''"
      using empty b by (auto simp: or_else_def)
    have stry: "sendMessage_try env ?w2 = addMessage env (call2 env) ?am (emit Fetch ?w2)"
      using f ok b c by (simp add: sendMessage_try_def Let_def)
    have res: "sendMessage env text atts w =
        (Inr (), setIsLoading False (snd (addMessage env (call2 env) ?am (emit Fetch ?w2))))"
      by (simp add: sendMessage_unfold [OF key] stry Let_def addMessage_fields)
    have st: "messages_state ?w' = messages_state w @ [?um, ?am] \<and> error_state ?w' = None"
      unfolding res by (simp add: setters_fields addMessage_fields)
    have "\<exists>l. trace ?w' = trace w @ l \<and> (\<forall>m. AppendMessage m \<in> set l \<longrightarrow> m = ?um \<or> m = ?am)"
      unfolding res by (simp add: setters_fields addMessage_fields split: sum.split)
    then obtain l where l: "trace ?w' = trace w @ l"
      "\<forall>m. AppendMessage m \<in> set l \<longrightarrow> m = ?um \<or> m = ?am" by blast
    have "new_events w ?w' = l" by (rule new_events_of_trace [OF l(1)])
    then have ?goal_m using l(2) by auto
    then show "(messages_state ?w' = messages_state w @ [?um, ?am] \<and> error_state ?w' = None) \<and> ?goal_m"
      using st by blast
  qed
  have unparsed: "(\<forall>data. body r \<noteq> Json data) \<longrightarrow>
             (messages_state ?w' = messages_state w @ [?um] \<and> error_state ?w' \<noteq> None) \<and> ?goal_m"
  proof
    assume nb: "\<forall>data. body r \<noteq> Json data"
    obtain err where thrown: "sendMessage_try env ?w2
                 = (Inl err, (if False then console_error ''API Error:'' else (\<lambda>x. x)) (emit Fetch ?w2))"
      using f ok nb by (cases "body r") (simp_all add: sendMessage_try_def Let_def)
    note th = sendMessage_thrown [OF key thrown]
    have na: "filter adds_assistant (new_events w ?w') = []" using th by blast
    have ?goal_m
    proof (intro allI impI)
      fix m assume a: "AppendMessage m \<in> set (new_events w ?w') \<and> role m = Assistant"
      then have "AppendMessage m \<in> set (filter adds_assistant (new_events w ?w'))" by simp
      then show "content m = ''No response from AI''" using na by simp
    qed
    then show "(messages_state ?w' = messages_state w @ [?um] \<and> error_state ?w' \<noteq> None) \<and> ?goal_m"
      using th by simp
  qed
  have gm: ?goal_m
  proof (cases "\<exists>data. body r = Json data")
    case True
    then show ?thesis using parsed by blast
  next
    case False
    then show ?thesis using unparsed by blast
  qed
  show ?thesis using r1 gm parsed unparsed by blast
qed

text \<open>
  Instances: the content is the empty string, and the body is the empty object. In both
  the assistant message with the content \<open>No response from AI\<close> follows the user's.
\<close>

lemma sendMessage_empty_content_instance:
  "messages_state
     (snd (sendMessage
        (example_env\<lparr>fetch_outcome := FetchResponse
           \<lparr> status = 200, statusText = ''OK'',
             body = Json \<lparr> error_message = None, message_prop = None,
                           choice_content = Some [] \<rparr> \<rparr>\<rparr>)
        ''hello'' None example_world))
     = [\<lparr> role = User, content = ''hi'', timestamp = 1700000000000, attachments = None \<rparr>,
        \<lparr> role = User, content = ''hello'', timestamp = 1717200000000, attachments = None \<rparr>,
        \<lparr> role = Assistant, content = ''No response from AI'', timestamp = 1717200000500,
          attachments = None \<rparr>]"
proof -
  let ?r = "\<lparr> status = 200, statusText = ''OK'',
             body = Json \<lparr> error_message = None, message_prop = None,
                           choice_content = Some [] \<rparr> \<rparr>"
  let ?env = "example_env\<lparr>fetch_outcome := FetchResponse ?r\<rparr>"
  have key: "apiKey (settings_state example_world) \<noteq> []" by (simp add: example_defs)
  have f: "fetch_outcome ?env = FetchResponse ?r" by simp
  have ok: "response_ok ?r" by (simp add: response_ok_def)
  have empty: "\<forall>data. body ?r = Json data \<longrightarrow> choice_content data = None \<or> choice_content data = Some []"
    by simp
  have ms: "messages_state example_world
              = [\<lparr> role = User, content = ''hi'', timestamp = 1700000000000, attachments = None \<rparr>]"
    "now_user example_env = 1717200000000" "now_assistant example_env = 1717200000500"
    by (simp_all add: example_defs)
  show ?thesis
    using sendMessage_empty_content [OF key f ok empty, of "''hello''" None]
    by (simp add: ms)
qed

lemma sendMessage_empty_object_instance:
  "messages_state
     (snd (sendMessage
        (example_env\<lparr>fetch_outcome := FetchResponse
           \<lparr> status = 200, statusText = ''OK'',
             body = Json \<lparr> error_message = None, message_prop = None,
                           choice_content = None \<rparr> \<rparr>\<rparr>)
        ''hello'' None example_world))
     = [\<lparr> role = User, content = ''hi'', timestamp = 1700000000000, attachments = None \<rparr>,
        \<lparr> role = User, content = ''hello'', timestamp = 1717200000000, attachments = None \<rparr>,
        \<lparr> role = Assistant, content = ''No response from AI'', timestamp = 1717200000500,
          attachments = None \<rparr>]"
proof -
  let ?r = "\<lparr> status = 200, statusText = ''OK'',
             body = Json \<lparr> error_message = None, message_prop = None,
                           choice_content = None \<rparr> \<rparr>"
  let ?env = "example_env\<lparr>fetch_outcome := FetchResponse ?r\<rparr>"
  have key: "apiKey (settings_state example_world) \<noteq> []" by (simp add: example_defs)
  have f: "fetch_outcome ?env = FetchResponse ?r" by simp
  have ok: "response_ok ?r" by (simp add: response_ok_def)
  have empty: "\<forall>data. body ?r = Json data \<longrightarrow> choice_content data = None \<or> choice_content data = Some []"
    by simp
  have ms: "messages_state example_world
              = [\<lparr> role = User, content = ''hi'', timestamp = 1700000000000, attachments = None \<rparr>]"
    "now_user example_env = 1717200000000" "now_assistant example_env = 1717200000500"
    by (simp_all add: example_defs)
  show ?thesis
    using sendMessage_empty_content [OF key f ok empty, of "''hello''" None]
    by (simp add: ms)
qed

text \<open>
  A response with a status in 200 to 299 whose body is the JSON value \<open>null\<close>:
  \<open>response.json()\<close> resolves with \<open>null\<close>, reading \<open>data.choices\<close> throws, and the
  \<open>catch\<close> block shows the message of the \<open>TypeError\<close>. Only the user's message has been
  added.
\<close>

lemma sendMessage_success_null:
  assumes key: "apiKey (settings_state w) \<noteq> []"
    and f: "fetch_outcome env = FetchResponse r"
    and ok: "response_ok r"
    and null: "body r = JsonNull"
  shows "fst (sendMessage env text atts w) = Inr ()
       \<and> error_state (snd (sendMessage env text atts w)) = Some (null_read_message env)
       \<and> filter is_shown_error (new_events w (snd (sendMessage env text atts w)))
           = [SetError (Some (null_read_message env))]
       \<and> messages_state (snd (sendMessage env text atts w))
           = messages_state w
             @ [\<lparr> role = User, content = text, timestamp = now_user env, attachments = atts \<rparr>]
       \<and> filter adds_assistant (new_events w (snd (sendMessage env text atts w))) = []
       \<and> filter (\<lambda>x. lm_role x = Assistant) (messages_store (idb (snd (sendMessage env text atts w))))
           = filter (\<lambda>x. lm_role x = Assistant) (messages_store (idb w))"
proof -
  have thrown: "sendMessage_try env
                   (setError None (setIsLoading True
                      (snd (addMessage env (call1 env)
                         \<lparr> role = User, content = text, timestamp = now_user env, attachments = atts \<rparr> w))))
                 = (Inl (TypeError (null_read_message env)),
                    (if False then console_error ''API Error:'' else (\<lambda>x. x))
                      (emit Fetch (setError None (setIsLoading True
                         (snd (addMessage env (call1 env)
                            \<lparr> role = User, content = text, timestamp = now_user env, attachments = atts \<rparr> w))))))"
    using f ok null by (simp add: sendMessage_try_def Let_def)
  show ?thesis
    using sendMessage_thrown [OF key thrown] by (simp add: error_text_def)
qed

text \<open>
  Claim C10 fails on the code for a response whose body is the JSON value \<open>null\<close>. With
  the status 200, the status text \<open>OK\<close> and the body \<open>null\<close>, \<open>response.json()\<close> resolves
  with \<open>null\<close>, so \<open>choices[0].message.content\<close> is absent. In
  \<open>data.choices?.[0]?.message?.content\<close> the optional chaining guards \<open>choices\<close> and what
  follows it, not \<open>data\<close>: reading \<open>data.choices\<close> throws. No assistant message is
  appended to the conversation or stored, the list in memory ends with the user's
  message, and the message of the \<open>TypeError\<close> is shown as an error. The claim requires
  an assistant message with the content \<open>No response from AI\<close>, which is what the code
  appends when the body is the empty object.
\<close>

theorem sendMessage_null_success_body:
  "messages_state
     (snd (sendMessage
        (example_env\<lparr>fetch_outcome := FetchResponse \<lparr> status = 200, statusText = ''OK'', body = JsonNull \<rparr>,
                      null_read_message := ''Cannot read properties of null (reading 'choices')''\<rparr>)
        ''hello'' None example_world))
     = [\<lparr> role = User, content = ''hi'', timestamp = 1700000000000, attachments = None \<rparr>,
        \<lparr> role = User, content = ''hello'', timestamp = 1717200000000, attachments = None \<rparr>]
   \<and> filter adds_assistant
       (new_events example_world
          (snd (sendMessage
             (example_env\<lparr>fetch_outcome := FetchResponse \<lparr> status = 200, statusText = ''OK'', body = JsonNull \<rparr>,
                           null_read_message := ''Cannot read properties of null (reading 'choices')''\<rparr>)
             ''hello'' None example_world)))
     = []
   \<and> filter (\<lambda>x. lm_role x = Assistant)
       (messages_store (idb
          (snd (sendMessage
             (example_env\<lparr>fetch_outcome := FetchResponse \<lparr> status = 200, statusText = ''OK'', body = JsonNull \<rparr>,
                           null_read_message := ''Cannot read properties of null (reading 'choices')''\<rparr>)
             ''hello'' None example_world))))
     = []
   \<and> error_state
       (snd (sendMessage
          (example_env\<lparr>fetch_outcome := FetchResponse \<lparr> status = 200, statusText = ''OK'', body = JsonNull \<rparr>,
                        null_read_message := ''Cannot read properties of null (reading 'choices')''\<rparr>)
          ''hello'' None example_world))
     = Some ''Cannot read properties of null (reading 'choices')''"
proof -
  let ?r = "\<lparr> status = 200, statusText = ''OK'', body = JsonNull \<rparr>"
  let ?env = "example_env\<lparr>fetch_outcome := FetchResponse ?r,
                null_read_message := ''Cannot read properties of null (reading 'choices')''\<rparr>"
  have key: "apiKey (settings_state example_world) \<noteq> []" by (simp add: example_defs)
  have f: "fetch_outcome ?env = FetchResponse ?r" by simp
  have ok: "response_ok ?r" by (simp add: response_ok_def)
  have null: "body ?r = JsonNull" by simp
  have ms: "messages_state example_world
              = [\<lparr> role = User, content = ''hi'', timestamp = 1700000000000, attachments = None \<rparr>]"
    "now_user example_env = 1717200000000"
    "filter (\<lambda>x. lm_role x = Assistant) (messages_store (idb example_world)) = []"
    by (simp_all add: example_defs)
  show ?thesis
    using sendMessage_success_null [OF key f ok null, of "''hello''" None]
    by (simp add: ms)
qed

end
